(* ===== verification/Prelude.thy ===== *)
theory Prelude
  imports Complex_Main "HOL-Library.Word" "HOL-Library.Multiset" "HOL-Library.Sublist"
begin

text \<open>
  Shared vocabulary of the development.
  \<^item> JavaScript numbers are modelled by their exact value, \<^typ>\<open>rat\<close>: every finite
    IEEE double is a rational, the formatter only compares, subtracts for a sort
    comparator (whose sign IEEE subtraction gets right) and rounds for display, so
    the exact value gives the same results. NaN, the infinities and negative zero
    are not represented.
  \<^item> JavaScript strings are \<^typ>\<open>string\<close>: a list of 8-bit code units. Non-ASCII
    literals of the source (the emoji of the templates) are written as their UTF-8
    bytes.
  \<^item> A thrown exception is the \<open>Inl\<close> branch of \<open>error + 'a\<close>; \<open>rbind\<close>
    sequences two computations that may throw.
  \<^item> Bytes are \<open>8 word\<close>; \<open>byte_eqI\<close> proves two bytes equal bit by bit.
\<close>

type_synonym js_number = rat
type_synonym byte = "8 word"

text \<open>
  The errors the code can throw. The source throws plain \<open>Error\<close> objects whose
  message is all that distinguishes them; property reads on \<open>null\<close> throw a
  \<open>TypeError\<close> naming the property; a rejected promise of a host service (the
  language model, \<open>fetch\<close>, \<open>response.json()\<close>) is an \<open>ExternalError\<close>.
\<close>

datatype error =
    Error string
  | TypeError string
  | ExternalError string

type_synonym 'a result = "error + 'a"

text \<open>
  The GraphQL response envelope \<open>{data, errors}\<close>: \<open>data\<close> is \<open>None\<close> when it is
  \<open>null\<close> or absent; \<open>errors\<close> is \<open>None\<close> when absent and otherwise the messages
  of the error array (an empty array is still present, and truthy).
\<close>

record 'a gql_response =
  gql_data :: "'a option"
  gql_errors :: "string list option"

abbreviation LF :: string where
  "LF \<equiv> [CHR 0x0A]"

definition utf8 :: "nat list \<Rightarrow> string" where
  "utf8 bs = map char_of bs"

definition rbind :: "'a result \<Rightarrow> ('a \<Rightarrow> 'b result) \<Rightarrow> 'b result" where
  "rbind m f = (case m of Inl e \<Rightarrow> Inl e | Inr x \<Rightarrow> f x)"

named_theorems result_simps "equations of the result combinator"
named_theorems js_simps "evaluation equations of the modelled JavaScript built-ins"

lemma rbind_Inl [simp, result_simps]: "rbind (Inl e) f = Inl e"
  by (simp add: rbind_def)

lemma rbind_Inr [simp, result_simps]: "rbind (Inr x) f = f x"
  by (simp add: rbind_def)

lemma rbind_eq_Inr_iff [result_simps]:
  "rbind m f = Inr y \<longleftrightarrow> (\<exists>x. m = Inr x \<and> f x = Inr y)"
  by (cases m) auto

lemma rbind_eq_Inl_iff [result_simps]:
  "rbind m f = Inl e \<longleftrightarrow> m = Inl e \<or> (\<exists>x. m = Inr x \<and> f x = Inl e)"
  by (cases m) auto

subsection \<open>Bytes\<close>

lemma less_8_cases: "(n::nat) < 8 \<longleftrightarrow> n \<in> {0, 1, 2, 3, 4, 5, 6, 7}"
  by auto

lemma byte_eqI:
  fixes x y :: byte
  assumes "\<And>n. n \<in> {0, 1, 2, 3, 4, 5, 6, 7} \<Longrightarrow> bit x n = bit y n"
  shows "x = y"
proof (rule bit_eqI)
  fix n assume "possible_bit TYPE(byte) n"
  then have "n \<in> {0, 1, 2, 3, 4, 5, 6, 7}"
    by (simp add: possible_bit_def less_8_cases)
  then show "bit x n = bit y n" by (rule assms)
qed

lemma bit_byte_high: "8 \<le> n \<Longrightarrow> \<not> bit (b::byte) n"
  using bit_imp_le_length [of b n] by auto

lemma unat_byte_less: "unat (b::byte) < 256"
  using unsigned_less [of b] by simp

subsection \<open>Lists\<close>

lemma sorted_wrt_take_rev:
  "sorted_wrt R xs \<Longrightarrow> sorted_wrt R (take n xs)"
  by (metis append_take_drop_id sorted_wrt_append)

lemma mset_take_subseteq: "mset (take n xs) \<subseteq># mset xs"
  by (metis append_take_drop_id mset_append mset_subset_eq_add_left)

end
