(* ===== verification/JS_Sort.thy ===== *)
theory JS_Sort
  imports Prelude
begin

text \<open>
  \<open>Array.prototype.sort\<close> with a comparator, as the formatter calls it
  (\<open>src/dist/index.js\<close> lines 46 and 75). ECMAScript requires the sort to be stable
  and, for a consistent comparator, fixes its result: the permutation that is
  ordered by the comparator and keeps the input order of elements that compare
  equal. The engine's algorithm (TimSort in V8) is not part of the repository; the
  model is the stable insertion sort \<open>js_sort\<close>, and the lemmas below show that
  it is that unique permutation (\<open>js_sort_desc_unique\<close>), so any conforming
  engine computes the same list.

  The comparators of the source are all of the form \<open>(a, b) => key(b) - key(a)\<close>,
  modelled by \<open>desc_by key\<close>.
\<close>

fun insort_cmp :: "('a \<Rightarrow> 'a \<Rightarrow> js_number) \<Rightarrow> 'a \<Rightarrow> 'a list \<Rightarrow> 'a list" where
  "insort_cmp cmp x [] = [x]"
| "insort_cmp cmp x (y # ys) =
     (if 0 < cmp x y then y # insort_cmp cmp x ys else x # y # ys)"

definition js_sort :: "('a \<Rightarrow> 'a \<Rightarrow> js_number) \<Rightarrow> 'a list \<Rightarrow> 'a list" where
  "js_sort cmp xs = foldr (insort_cmp cmp) xs []"

definition desc_by :: "('a \<Rightarrow> js_number) \<Rightarrow> 'a \<Rightarrow> 'a \<Rightarrow> js_number" where
  "desc_by key a b = key b - key a"

definition sorted_desc :: "('a \<Rightarrow> js_number) \<Rightarrow> 'a list \<Rightarrow> bool" where
  "sorted_desc key xs = sorted_wrt (\<lambda>a b. key b \<le> key a) xs"

subsection \<open>The descending comparator sort is the library's stable key sort\<close>

lemma insort_cmp_desc_by:
  "insort_cmp (desc_by key) x ys = insort_key (\<lambda>a. - key a) x ys"
  by (induction ys) (auto simp: desc_by_def)

lemma js_sort_desc_by:
  "js_sort (desc_by key) xs = sort_key (\<lambda>a. - key a) xs"
  by (simp add: js_sort_def sort_key_def insort_cmp_desc_by [abs_def])

lemma js_sort_Nil [simp]: "js_sort cmp [] = []"
  by (simp add: js_sort_def)

lemma js_sort_Cons [simp]: "js_sort cmp (x # xs) = insort_cmp cmp x (js_sort cmp xs)"
  by (simp add: js_sort_def)

lemma sorted_neg_key_iff:
  "sorted (map (\<lambda>a. - key a) xs) \<longleftrightarrow> sorted_desc key xs"
  by (simp add: sorted_desc_def sorted_map)

lemma sorted_desc_js_sort: "sorted_desc key (js_sort (desc_by key) xs)"
  using sorted_sort_key [of "\<lambda>a. - key a" xs]
  by (simp add: js_sort_desc_by sorted_neg_key_iff)

lemma mset_js_sort [simp]: "mset (js_sort cmp xs) = mset xs"
proof (induction xs)
  case Nil
  then show ?case by simp
next
  case (Cons x xs)
  have "mset (insort_cmp cmp x ys) = add_mset x (mset ys)" for ys
    by (induction ys) auto
  with Cons show ?case by simp
qed

lemma set_js_sort [simp]: "set (js_sort cmp xs) = set xs"
  by (metis mset_js_sort set_mset_mset)

lemma length_js_sort [simp]: "length (js_sort cmp xs) = length xs"
  by (metis mset_js_sort size_mset)

lemma js_sort_desc_stable:
  "filter (\<lambda>y. key y = k) (js_sort (desc_by key) xs) = filter (\<lambda>y. key y = k) xs"
proof -
  have "filter (\<lambda>y. - key y = - k) (sort_key (\<lambda>a. - key a) xs)
      = filter (\<lambda>y. - key y = - k) xs"
    by (rule sort_key_stable)
  then show ?thesis by (simp add: js_sort_desc_by)
qed

text \<open>
  Uniqueness: a list that has the same elements, is ordered by descending key and
  keeps the input order among equal keys is the result of the sort.
\<close>

lemma js_sort_desc_unique_aux:
  assumes "mset ys = mset xs"
    and "sorted_desc key ys"
    and "\<And>k. filter (\<lambda>y. key y = k) ys = filter (\<lambda>y. key y = k) xs"
  shows "js_sort (desc_by key) xs = ys"
proof -
  have "sort_key (\<lambda>a. - key a) xs = ys"
  proof (rule properties_for_sort_key)
    show "mset ys = mset xs" by (fact assms(1))
    show "sorted (map (\<lambda>a. - key a) ys)"
      using assms(2) by (simp add: sorted_neg_key_iff)
    fix k
    have eq: "(\<lambda>x. - key k = - key x) = (\<lambda>y. key y = key k)"
      by auto
    show "filter (\<lambda>x. - key k = - key x) ys = filter (\<lambda>x. - key k = - key x) xs"
      unfolding eq by (rule assms(3))
  qed
  then show ?thesis by (simp add: js_sort_desc_by)
qed

lemma sorted_desc_append_le:
  "sorted_desc key (xs @ ys) \<Longrightarrow> x \<in> set xs \<Longrightarrow> y \<in> set ys \<Longrightarrow> key y \<le> key x"
  by (simp add: sorted_desc_def sorted_wrt_append)

lemma sorted_desc_take: "sorted_desc key xs \<Longrightarrow> sorted_desc key (take n xs)"
  by (simp add: sorted_desc_def sorted_wrt_take_rev)

text \<open>
  Claim C20. The comparator sort computes exactly the list ECMAScript specifies for
  the comparator \<open>(a, b) => key(b) - key(a)\<close>: a list is the result if and only
  if it is a permutation of the input, ordered by descending key, that keeps the
  input order among equal keys.
\<close>

theorem js_sort_desc_iff:
  "js_sort (desc_by key) xs = ys \<longleftrightarrow>
     mset ys = mset xs \<and> sorted_desc key ys
     \<and> (\<forall>k. filter (\<lambda>y. key y = k) ys = filter (\<lambda>y. key y = k) xs)"
  using js_sort_desc_unique_aux [of ys xs key] sorted_desc_js_sort [of key xs]
    js_sort_desc_stable [of key _ xs]
  by auto

end
