(* ===== verification/JS_Strings.thy ===== *)
theory JS_Strings
  imports Prelude
begin

text \<open>
  The ECMAScript string and array built-ins the source calls, modelled from the
  language specification (they are not code of the repository):
  \<^item> \<open>js_split d s\<close> is \<open>s.split(d)\<close> for a one-character separator: the pieces
    between separators, the empty string included, and never the empty list;
  \<^item> \<open>js_trim\<close> is \<open>String.prototype.trim\<close>, restricted to the code units below
    256: it drops TAB, LF, VT, FF, CR, SPACE and NO-BREAK SPACE at both ends;
  \<^item> \<open>js_join sep xs\<close> is \<open>xs.join(sep)\<close>;
  \<^item> \<open>js_truthy\<close> is JavaScript truthiness of a string that may be \<open>null\<close> or
    \<open>undefined\<close> (\<open>None\<close>): only a non-empty string is truthy;
    \<open>js_or\<close> is \<open>a || b\<close> on such values;
  \<^item> \<open>js_toLowerCase\<close> is \<open>String.prototype.toLowerCase\<close> on the code units below
    256 (ASCII capitals and the Latin-1 capitals other than the multiplication
    sign); \<open>js_replace_first d s\<close> is \<open>s.replace(d, "")\<close> for a one-character
    string \<open>d\<close>, which removes only the first occurrence; \<open>js_includes s t\<close> is
    \<open>s.includes(t)\<close>, the contiguous-substring test.
\<close>

fun js_split :: "char \<Rightarrow> string \<Rightarrow> string list" where
  "js_split d [] = [[]]"
| "js_split d (c # cs) =
     (let ws = js_split d cs in if c = d then [] # ws else (c # hd ws) # tl ws)"

definition js_whitespace :: "char \<Rightarrow> bool" where
  "js_whitespace c \<longleftrightarrow> (of_char c :: nat) \<in> {9, 10, 11, 12, 13, 32, 160}"

definition js_trim :: "string \<Rightarrow> string" where
  "js_trim s = rev (dropWhile js_whitespace (rev (dropWhile js_whitespace s)))"

fun js_join :: "string \<Rightarrow> string list \<Rightarrow> string" where
  "js_join sep [] = []"
| "js_join sep [x] = x"
| "js_join sep (x # y # zs) = x @ sep @ js_join sep (y # zs)"

fun js_truthy :: "string option \<Rightarrow> bool" where
  "js_truthy None = False"
| "js_truthy (Some s) = (s \<noteq> [])"

definition js_or :: "string option \<Rightarrow> string option \<Rightarrow> string option" where
  "js_or a b = (if js_truthy a then a else b)"

definition js_lower_char :: "char \<Rightarrow> char" where
  "js_lower_char c =
     (let n = (of_char c :: nat)
      in if (65 \<le> n \<and> n \<le> 90) \<or> (192 \<le> n \<and> n \<le> 222 \<and> n \<noteq> 215) then char_of (n + 32) else c)"

definition js_toLowerCase :: "string \<Rightarrow> string" where
  "js_toLowerCase s = map js_lower_char s"

fun js_replace_first :: "char \<Rightarrow> string \<Rightarrow> string" where
  "js_replace_first d [] = []"
| "js_replace_first d (c # cs) = (if c = d then cs else c # js_replace_first d cs)"

definition js_includes :: "string \<Rightarrow> string \<Rightarrow> bool" where
  "js_includes s t \<longleftrightarrow> sublist t s"

subsection \<open>Split\<close>

lemma js_split_not_Nil [simp]: "js_split d s \<noteq> []"
  by (induction s) (auto simp: Let_def)

lemma js_split_no_sep: "d \<notin> set s \<Longrightarrow> js_split d s = [s]"
  by (induction s) (auto simp: Let_def)

lemma js_split_append_sep:
  "d \<notin> set x \<Longrightarrow> js_split d (x @ d # s) = x # js_split d s"
proof (induction x)
  case Nil
  then show ?case by simp
next
  case (Cons c x)
  then show ?case by (auto simp: Let_def)
qed

lemma js_split_pieces: "w \<in> set (js_split d s) \<Longrightarrow> d \<notin> set w"
proof (induction s arbitrary: w)
  case Nil
  then show ?case by simp
next
  case (Cons c cs)
  have ne: "js_split d cs \<noteq> []" by simp
  show ?case
  proof (cases "c = d")
    case True
    with Cons show ?thesis by (auto simp: Let_def)
  next
    case False
    with Cons.prems have "w = c # hd (js_split d cs) \<or> w \<in> set (tl (js_split d cs))"
      by (auto simp: Let_def)
    moreover have "hd (js_split d cs) \<in> set (js_split d cs)"
      using ne by simp
    moreover have "set (tl (js_split d cs)) \<subseteq> set (js_split d cs)"
      by (cases "js_split d cs") auto
    ultimately show ?thesis using False Cons.IH by auto
  qed
qed

lemma js_split_prefix:
  "d \<notin> set p \<Longrightarrow> js_split d (p @ s) = (p @ hd (js_split d s)) # tl (js_split d s)"
  by (induction p) (auto simp: Let_def)

lemma js_split_join_sep:
  assumes "\<forall>x \<in> set (w # ws). d \<notin> set x" and "d \<notin> set sep"
  shows "js_split d (js_join (d # sep) (w # ws)) = w # map (\<lambda>x. sep @ x) ws"
  using assms(1)
proof (induction ws arbitrary: w)
  case Nil
  then show ?case by (simp add: js_split_no_sep)
next
  case (Cons v ws)
  then have IH: "js_split d (js_join (d # sep) (v # ws)) = v # map (\<lambda>x. sep @ x) ws"
    by simp
  from Cons.prems have "js_split d (js_join (d # sep) (w # v # ws))
      = w # js_split d (sep @ js_join (d # sep) (v # ws))"
    by (simp add: js_split_append_sep)
  also have "js_split d (sep @ js_join (d # sep) (v # ws)) = (sep @ v) # map (\<lambda>x. sep @ x) ws"
    using assms(2) by (simp add: js_split_prefix IH)
  finally show ?case by simp
qed

subsection \<open>Trim\<close>

lemma js_trim_ws_Cons: "js_whitespace c \<Longrightarrow> js_trim (c # s) = js_trim s"
  by (simp add: js_trim_def)

lemma js_whitespace_space [simp]: "js_whitespace (CHR '' '')"
  by (simp add: js_whitespace_def)

lemma set_js_trim: "set (js_trim s) \<subseteq> set s"
  by (auto simp: js_trim_def dest!: set_dropWhileD)

lemma dropWhile_idem: "dropWhile P (dropWhile P xs) = dropWhile P xs"
  by (induction xs) auto

lemma js_trim_idem: "js_trim (js_trim s) = js_trim s"
proof -
  define A where "A = dropWhile js_whitespace s"
  define B where "B = dropWhile js_whitespace (rev A)"
  have hdA: "A \<noteq> [] \<Longrightarrow> \<not> js_whitespace (hd A)"
    by (simp add: A_def hd_dropWhile)
  obtain Z where AZ: "A = rev B @ Z"
    by (metis B_def rev_append rev_rev_ident takeWhile_dropWhile_id)
  have "dropWhile js_whitespace (rev B) = rev B"
  proof (cases "rev B")
    case Nil
    then show ?thesis by simp
  next
    case (Cons c cs)
    with AZ have "A \<noteq> []" and "hd A = c" by simp_all
    with hdA Cons show ?thesis by simp
  qed
  moreover have "dropWhile js_whitespace B = B"
    by (simp add: B_def dropWhile_idem)
  moreover have "js_trim s = rev B"
    by (simp add: js_trim_def A_def B_def)
  ultimately show ?thesis
    by (simp add: js_trim_def)
qed

end
