(* ===== verification/Number_Format.thy ===== *)
theory Number_Format
  imports Prelude
begin

text \<open>
  \<open>Number.prototype.toLocaleString\<close> as the formatter calls it, with the default
  locale taken to be en-US (ECMA-402 \<open>FormatNumericToString\<close>):
  \<^item> \<open>{style: "currency", currency: "USD"}\<close>: sign, \<open>$\<close>, the integer part with
    \<open>,\<close> between groups of three digits, a point and exactly two fraction digits
    (\<open>format_usd\<close>);
  \<^item> \<open>{maximumFractionDigits: 4}\<close>: sign, grouped integer part, and at most four
    fraction digits with trailing zeros removed (\<open>format_max4\<close>).
  Both round the magnitude half away from zero (\<open>round_half_expand\<close>) and print a
  minus sign for every negative input, also one that rounds to zero.
  The locale data is not part of the repository: these definitions are modelled
  from the ECMA-402 specification. The spec-side decoder \<open>parse_usd\<close> reads a
  currency string back; the lemmas show the rendering loses nothing but the rounding.
\<close>

definition digit_char :: "nat \<Rightarrow> char" where
  "digit_char d = char_of (48 + d)"

fun digits_of :: "nat \<Rightarrow> string" where
  "digits_of n =
     (if n < 10 then [digit_char n] else digits_of (n div 10) @ [digit_char (n mod 10)])"

declare digits_of.simps [simp del]

fun group_rev :: "string \<Rightarrow> string" where
  "group_rev (a # b # c # d # rest) = a # b # c # CHR '','' # group_rev (d # rest)"
| "group_rev xs = xs"

definition group_thousands :: "string \<Rightarrow> string" where
  "group_thousands s = rev (group_rev (rev s))"

definition pad_left :: "nat \<Rightarrow> string \<Rightarrow> string" where
  "pad_left k s = replicate (k - length s) (CHR ''0'') @ s"

definition strip_trailing_zeros :: "string \<Rightarrow> string" where
  "strip_trailing_zeros s = rev (dropWhile (\<lambda>c. c = CHR ''0'') (rev s))"

definition round_half_expand :: "js_number \<Rightarrow> nat \<Rightarrow> nat" where
  "round_half_expand x f = nat \<lfloor>\<bar>x\<bar> * 10 ^ f + 1 / 2\<rfloor>"

definition sign_prefix :: "js_number \<Rightarrow> string" where
  "sign_prefix x = (if x < 0 then ''-'' else [])"

definition format_usd :: "js_number \<Rightarrow> string" where
  "format_usd x =
     (let n = round_half_expand x 2
      in sign_prefix x @ ''$'' @ group_thousands (digits_of (n div 100)) @ ''.''
         @ pad_left 2 (digits_of (n mod 100)))"

definition format_max4 :: "js_number \<Rightarrow> string" where
  "format_max4 x =
     (let n = round_half_expand x 4;
          frac = strip_trailing_zeros (pad_left 4 (digits_of (n mod 10000)))
      in sign_prefix x @ group_thousands (digits_of (n div 10000))
         @ (if frac = [] then [] else CHR ''.'' # frac))"

subsection \<open>Reading a rendering back\<close>

definition digit_value :: "char \<Rightarrow> nat" where
  "digit_value c = (of_char c :: nat) - 48"

definition digits_value :: "string \<Rightarrow> nat" where
  "digits_value s = foldl (\<lambda>acc c. 10 * acc + digit_value c) 0 s"

definition is_digit :: "char \<Rightarrow> bool" where
  "is_digit c \<longleftrightarrow> (48::nat) \<le> of_char c \<and> of_char c \<le> (57::nat)"

text \<open>
  \<open>parse_usd\<close> decodes a currency string of the shape the formatter prints:
  an optional minus, \<open>$\<close>, digits and commas, a point, two digits.
\<close>

definition parse_usd :: "string \<Rightarrow> js_number option" where
  "parse_usd s =
     (let neg = (take 1 s = ''-'');
          r = (if neg then drop 1 s else s);
          ip = filter (\<lambda>c. c \<noteq> CHR '','') (take (length r - 4) (drop 1 r));
          fp = drop (length r - 2) r
      in if take 1 r = ''$'' \<and> 4 \<le> length r \<and> r ! (length r - 3) = CHR ''.''
            \<and> list_all is_digit ip \<and> list_all is_digit fp
         then Some ((if neg then -1 else 1) * (of_nat (digits_value ip) + of_nat (digits_value fp) / 100))
         else None)"

definition usd_rounded :: "js_number \<Rightarrow> js_number" where
  "usd_rounded x = (if x < 0 then -1 else 1) * of_nat (round_half_expand x 2) / 100"

subsection \<open>Digits\<close>

lemma digit_value_digit_char [simp]: "d < 10 \<Longrightarrow> digit_value (digit_char d) = d"
  by (simp add: digit_value_def digit_char_def of_char_of)

lemma is_digit_digit_char [simp]: "d < 10 \<Longrightarrow> is_digit (digit_char d)"
  by (simp add: is_digit_def digit_char_def of_char_of)

lemma digit_char_not_sep [simp]:
  "d < 10 \<Longrightarrow> digit_char d \<noteq> CHR '',''"
  "d < 10 \<Longrightarrow> digit_char d \<noteq> CHR ''.''"
  "d < 10 \<Longrightarrow> digit_char d \<noteq> CHR ''-''"
  "d < 10 \<Longrightarrow> digit_char d \<noteq> CHR ''$''"
  by (auto simp: digit_char_def dest!: arg_cong [where f = "of_char :: char \<Rightarrow> nat"])

lemma is_digit_zero [simp]: "is_digit (CHR ''0'')"
  by (simp add: is_digit_def)

lemma digits_value_foldl:
  "foldl (\<lambda>acc c. 10 * acc + digit_value c) a s = a * 10 ^ length s + digits_value s"
proof (induction s arbitrary: a)
  case Nil
  then show ?case by (simp add: digits_value_def)
next
  case (Cons c s)
  have "digits_value (c # s) = digit_value c * 10 ^ length s + digits_value s"
    using Cons.IH [of "digit_value c"] by (simp add: digits_value_def)
  then show ?case
    using Cons.IH [of "10 * a + digit_value c"] by (simp add: algebra_simps)
qed

lemma digits_value_Nil [simp]: "digits_value [] = 0"
  by (simp add: digits_value_def)

lemma digits_value_Cons [simp]:
  "digits_value (c # s) = digit_value c * 10 ^ length s + digits_value s"
proof -
  have "digits_value (c # s) = foldl (\<lambda>acc c. 10 * acc + digit_value c) (digit_value c) s"
    by (simp add: digits_value_def)
  also have "\<dots> = digit_value c * 10 ^ length s + digits_value s"
    by (rule digits_value_foldl)
  finally show ?thesis .
qed

lemma digits_value_append:
  "digits_value (xs @ ys) = digits_value xs * 10 ^ length ys + digits_value ys"
proof -
  have "digits_value (xs @ ys) = foldl (\<lambda>acc c. 10 * acc + digit_value c) (digits_value xs) ys"
    by (simp add: digits_value_def)
  also have "\<dots> = digits_value xs * 10 ^ length ys + digits_value ys"
    by (rule digits_value_foldl)
  finally show ?thesis .
qed

lemma digits_value_zeros [simp]: "digits_value (replicate k (CHR ''0'')) = 0"
  by (induction k) (simp_all add: digit_value_def)

lemma digits_value_digits_of [simp]: "digits_value (digits_of n) = n"
proof (induction n rule: digits_of.induct)
  case (1 n)
  show ?case
  proof (cases "n < 10")
    case True
    then show ?thesis by (simp add: digits_of.simps [of n])
  next
    case False
    then have "digits_value (digits_of n)
        = digits_value (digits_of (n div 10)) * 10 + digits_value [digit_char (n mod 10)]"
      by (simp add: digits_of.simps [of n] digits_value_append)
    also have "\<dots> = n" using "1" False by simp
    finally show ?thesis .
  qed
qed

lemma digits_of_chars: "c \<in> set (digits_of n) \<Longrightarrow> \<exists>d < 10. c = digit_char d"
proof (induction n rule: digits_of.induct)
  case (1 n)
  show ?case
  proof (cases "n < 10")
    case True
    with "1.prems" show ?thesis by (auto simp: digits_of.simps [of n])
  next
    case False
    with "1.prems" have "c \<in> set (digits_of (n div 10)) \<or> c = digit_char (n mod 10)"
      by (auto simp: digits_of.simps [of n])
    moreover have "n mod 10 < 10" by simp
    ultimately show ?thesis using "1.IH" False by blast
  qed
qed

lemma digits_of_all_digits [simp]: "list_all is_digit (digits_of n)"
  by (auto simp: list_all_iff dest: digits_of_chars)

lemma digits_of_no_sep [simp]:
  "CHR '','' \<notin> set (digits_of n)" "CHR ''.'' \<notin> set (digits_of n)"
  by (metis digits_of_chars digit_char_not_sep(1))
     (metis digits_of_chars digit_char_not_sep(2))

lemma digits_of_hd: "digits_of n \<noteq> []"
  by (subst digits_of.simps) simp

lemma length_digits_of:
  "n < 10 ^ k \<Longrightarrow> 0 < k \<Longrightarrow> length (digits_of n) \<le> k"
proof (induction n arbitrary: k rule: digits_of.induct)
  case (1 n)
  show ?case
  proof (cases "n < 10")
    case True
    with "1.prems" show ?thesis by (simp add: digits_of.simps [of n])
  next
    case False
    with "1.prems" obtain j where k: "k = Suc j" and j: "0 < j"
      by (cases k; cases "k - 1") auto
    have "n div 10 < 10 ^ j"
      using "1.prems"(1) k by (simp add: less_mult_imp_div_less mult.commute)
    with "1.IH" False j have "length (digits_of (n div 10)) \<le> j"
      by simp
    with False k show ?thesis by (simp add: digits_of.simps [of n])
  qed
qed

lemma pad_left_digits_of:
  assumes "n < 10 ^ k" and "0 < k"
  shows "length (pad_left k (digits_of n)) = k"
    and "digits_value (pad_left k (digits_of n)) = n"
    and "list_all is_digit (pad_left k (digits_of n))"
proof -
  have "length (digits_of n) \<le> k" using assms by (rule length_digits_of)
  then show "length (pad_left k (digits_of n)) = k"
    by (simp add: pad_left_def)
  show "digits_value (pad_left k (digits_of n)) = n"
    by (simp add: pad_left_def digits_value_append)
  show "list_all is_digit (pad_left k (digits_of n))"
    by (simp add: pad_left_def list_all_append) (simp add: list_all_iff)
qed

subsection \<open>Grouping\<close>

lemma filter_group_rev:
  "CHR '','' \<notin> set s \<Longrightarrow> filter (\<lambda>c. c \<noteq> CHR '','') (group_rev s) = s"
  by (induction s rule: group_rev.induct) auto

lemma filter_group_thousands:
  "CHR '','' \<notin> set s \<Longrightarrow> filter (\<lambda>c. c \<noteq> CHR '','') (group_thousands s) = s"
  by (simp add: group_thousands_def rev_filter [symmetric] filter_group_rev)

lemma group_thousands_Nil_iff [simp]: "group_thousands s = [] \<longleftrightarrow> s = []"
proof -
  have "group_rev s = [] \<longleftrightarrow> s = []" for s
    by (cases s rule: group_rev.cases) auto
  then show ?thesis by (simp add: group_thousands_def)
qed

subsection \<open>Currency strings decode to the rounded value\<close>

lemma parse_usd_layout:
  assumes P: "length P = 2" "list_all is_digit P"
    and G: "list_all is_digit (filter (\<lambda>c. c \<noteq> CHR '','') G)"
  shows "parse_usd ((if neg then ''-'' else []) @ ''$'' @ G @ ''.'' @ P)
       = Some ((if neg then -1 else 1) *
           (of_nat (digits_value (filter (\<lambda>c. c \<noteq> CHR '','') G)) + of_nat (digits_value P) / 100))"
proof -
  define r where "r = ''$'' @ G @ ''.'' @ P"
  have len: "length r = length G + 4" using P(1) by (simp add: r_def)
  have ip: "take (length r - 4) (drop 1 r) = G" using len by (simp add: r_def)
  have fp: "drop (length r - 2) r = P" using len by (simp add: r_def)
  have dot: "r ! (length r - 3) = CHR ''.''" using len by (simp add: r_def nth_append)
  have hd: "take 1 r = ''$''" by (simp add: r_def)
  have s: "(if neg then ''-'' else []) @ ''$'' @ G @ ''.'' @ P = (if neg then CHR ''-'' # r else r)"
    by (simp add: r_def)
  have "parse_usd (if neg then CHR ''-'' # r else r)
      = Some ((if neg then -1 else 1) *
           (of_nat (digits_value (filter (\<lambda>c. c \<noteq> CHR '','') G)) + of_nat (digits_value P) / 100))"
  proof (cases neg)
    case True
    then show ?thesis
      unfolding parse_usd_def Let_def using len ip fp dot hd P G by simp
  next
    case False
    then show ?thesis
      unfolding parse_usd_def Let_def using len ip fp dot hd P G by (simp add: r_def)
  qed
  then show ?thesis unfolding s .
qed

lemma round_half_expand_bound:
  "\<bar>of_nat (round_half_expand x f) - \<bar>x\<bar> * 10 ^ f\<bar> \<le> 1 / 2"
proof -
  define y where "y = \<bar>x\<bar> * 10 ^ f + 1 / 2"
  have "0 \<le> \<lfloor>y\<rfloor>" by (simp add: y_def)
  then have n: "of_nat (round_half_expand x f) = (of_int \<lfloor>y\<rfloor> :: rat)"
    by (simp add: round_half_expand_def y_def)
  have "of_int \<lfloor>y\<rfloor> \<le> y" and "y < of_int \<lfloor>y\<rfloor> + 1"
    by simp_all linarith
  then show ?thesis unfolding n y_def by linarith
qed

lemma of_nat_div_mod_100:
  "(of_nat (n div 100) + of_nat (n mod 100) / 100 :: rat) = of_nat n / 100"
proof -
  have "of_nat n = (of_nat (n div 100) * 100 + of_nat (n mod 100) :: rat)"
    by (metis div_mult_mod_eq of_nat_add of_nat_mult of_nat_numeral)
  then show ?thesis by simp
qed

lemma parse_usd_format_usd: "parse_usd (format_usd x) = Some (usd_rounded x)"
proof -
  define n where "n = round_half_expand x 2"
  have m: "n mod 100 < 10 ^ 2" by simp
  have "format_usd x = (if x < 0 then ''-'' else []) @ ''$'' @ group_thousands (digits_of (n div 100))
      @ ''.'' @ pad_left 2 (digits_of (n mod 100))"
    by (simp add: format_usd_def Let_def n_def sign_prefix_def)
  also have "parse_usd \<dots> = Some ((if x < 0 then -1 else 1) *
        (of_nat (n div 100) + of_nat (n mod 100) / 100))"
    by (subst parse_usd_layout) (use pad_left_digits_of [OF m] in \<open>simp_all add: filter_group_thousands\<close>)
  also have "\<dots> = Some (usd_rounded x)"
    by (simp add: usd_rounded_def n_def of_nat_div_mod_100)
  finally show ?thesis .
qed

lemma usd_rounded_error: "\<bar>usd_rounded x - x\<bar> \<le> 1 / 200"
proof -
  have b: "\<bar>of_nat (round_half_expand x 2) - \<bar>x\<bar> * 100\<bar> \<le> 1 / 2"
    using round_half_expand_bound [of x 2] by simp
  show ?thesis
  proof (cases "x < 0")
    case True
    with b show ?thesis by (simp add: usd_rounded_def abs_if split: if_splits)
  next
    case False
    with b show ?thesis by (simp add: usd_rounded_def abs_if split: if_splits)
  qed
qed

text \<open>
  Claim C16. The currency rendering is faithful up to rounding: decoding the string
  \<open>toLocaleString\<close> prints for a value gives that value rounded to cents, which is
  within half a cent of the value.
\<close>

theorem format_usd_faithful:
  "parse_usd (format_usd x) = Some (usd_rounded x) \<and> \<bar>usd_rounded x - x\<bar> \<le> 1 / 200"
  by (rule conjI [OF parse_usd_format_usd usd_rounded_error])

end
