(* ===== verification/Portfolio_Format.thy ===== *)
theory Portfolio_Format
  imports JS_Sort JS_Strings Number_Format
begin

text \<open>
  The portfolio formatter \<open>formatPortfolioData\<close> (\<open>src/dist/index.js\<close> lines
  44--94, from \<open>src/utils.ts\<close>). The records are the fields the \<open>Portfolio\<close>
  GraphQL query selects (lines 137--168). The formatter
  \<^item> sorts the token balances by descending USD value and keeps the first five
    (\<open>top_tokens\<close>), rendering each with \<open>token_line\<close>;
  \<^item> renders every NFT balance (\<open>nft_line\<close>);
  \<^item> keeps the network totals that are positive, sorted descending
    (\<open>network_rows\<close>), rendering each with \<open>network_line\<close>;
  \<^item> fills the fixed template (\<open>render_portfolio\<close>).
  A \<open>null\<close> \<open>data\<close> or \<open>data.portfolio\<close> makes the first property read throw a
  \<open>TypeError\<close> (\<open>formatPortfolioData\<close>).
\<close>

record base_token =
  bt_name :: string
  bt_symbol :: string

record token =
  tok_balance :: js_number
  tok_balanceUSD :: js_number
  tok_baseToken :: base_token

record token_balance =
  tb_address :: string
  tb_network :: string
  tb_token :: token

record nft_balance =
  nft_network :: string
  nft_balanceUSD :: js_number

record network_total =
  net_network :: string
  net_total :: js_number

record holding =
  hold_label :: string
  hold_balanceUSD :: js_number
  hold_pct :: js_number

record totals =
  tot_total :: js_number
  tot_totalWithNFT :: js_number
  tot_totalByNetwork :: "network_total list"
  tot_holdings :: "holding list"

record portfolio =
  tokenBalances :: "token_balance list"
  nftBalances :: "nft_balance list"
  pf_totals :: totals

definition usd_key :: "token_balance \<Rightarrow> js_number" where
  "usd_key b = tok_balanceUSD (tb_token b)"

definition top_tokens :: "token_balance list \<Rightarrow> token_balance list" where
  "top_tokens tbs = take 5 (js_sort (desc_by usd_key) tbs)"

definition token_line :: "token_balance \<Rightarrow> string" where
  "token_line b =
     (let formattedBalance = format_max4 (tok_balance (tb_token b));
          formattedUSD = format_usd (tok_balanceUSD (tb_token b))
      in bt_name (tok_baseToken (tb_token b)) @ '' ('' @ bt_symbol (tok_baseToken (tb_token b))
         @ '')'' @ LF @ ''Network: '' @ tb_network b @ LF @ ''Balance: '' @ formattedBalance
         @ LF @ ''Value: '' @ formattedUSD)"

definition nft_line :: "nft_balance \<Rightarrow> string" where
  "nft_line nft = nft_network nft @ LF @ ''NFT Value: '' @ format_usd (nft_balanceUSD nft)"

definition network_rows :: "network_total list \<Rightarrow> network_total list" where
  "network_rows nets = js_sort (desc_by net_total) (filter (\<lambda>net. 0 < net_total net) nets)"

definition network_line :: "network_total \<Rightarrow> string" where
  "network_line net = net_network net @ '': '' @ format_usd (net_total net)"

definition render_portfolio :: "portfolio \<Rightarrow> string" where
  "render_portfolio p =
     (let tokenSection = js_join LF (map token_line (top_tokens (tokenBalances p)));
          nftSection = js_join LF (map nft_line (nftBalances p));
          totalUSD = format_usd (tot_total (pf_totals p));
          totalWithNFTUSD = format_usd (tot_totalWithNFT (pf_totals p));
          networkTotals = js_join LF (map network_line (network_rows (tot_totalByNetwork (pf_totals p))))
      in utf8 [240, 159, 146, 176] @ '' Portfolio Summary:'' @ LF
         @ ''Total Value (excluding NFTs): '' @ totalUSD @ LF
         @ ''Total Value (including NFTs): '' @ totalWithNFTUSD @ LF
         @ ''        '' @ LF
         @ utf8 [240, 159, 140, 144] @ '' Network Breakdown:'' @ LF
         @ networkTotals @ LF
         @ ''        '' @ LF
         @ utf8 [240, 159, 170, 153] @ '' Top Token Holdings:'' @ LF
         @ tokenSection @ LF
         @ ''        '' @ LF
         @ utf8 [240, 159, 142, 168] @ '' NFT Holdings:'' @ LF
         @ nftSection)"

definition formatPortfolioData :: "portfolio option gql_response \<Rightarrow> string result" where
  "formatPortfolioData data =
     (case gql_data data of
        None \<Rightarrow> Inl (TypeError ''portfolio'')
      | Some None \<Rightarrow> Inl (TypeError ''tokenBalances'')
      | Some (Some portfolio) \<Rightarrow> Inr (render_portfolio portfolio))"

definition sample_balance :: "string \<Rightarrow> js_number \<Rightarrow> token_balance" where
  "sample_balance name usd =
     \<lparr>tb_address = ''0xabc'', tb_network = ''ETHEREUM_MAINNET'',
      tb_token = \<lparr>tok_balance = 1, tok_balanceUSD = usd,
                  tok_baseToken = \<lparr>bt_name = name, bt_symbol = name\<rparr>\<rparr>\<rparr>"

subsection \<open>Top token holdings\<close>

text \<open>
  Claim C1. The token section lists \<open>min 5 n\<close> of the \<open>n\<close> token balances, in
  descending order of USD value, taken from the input, and no balance left out is
  worth more than one that is listed.
\<close>

theorem top_tokens_spec:
  "length (top_tokens tbs) = min 5 (length tbs)
   \<and> sorted_desc usd_key (top_tokens tbs)
   \<and> mset (top_tokens tbs) \<subseteq># mset tbs
   \<and> (\<forall>x \<in> set (top_tokens tbs). \<forall>y \<in># mset tbs - mset (top_tokens tbs). usd_key y \<le> usd_key x)"
proof -
  define S where "S = js_sort (desc_by usd_key) tbs"
  have top: "top_tokens tbs = take 5 S"
    by (simp add: top_tokens_def S_def)
  have sortS: "sorted_desc usd_key S"
    by (simp add: S_def sorted_desc_js_sort)
  have msetS: "mset S = mset tbs"
    by (simp add: S_def)
  have lenS: "length S = length tbs"
    by (simp add: S_def)
  have rest: "mset tbs - mset (take 5 S) = mset (drop 5 S)"
    by (metis msetS add_diff_cancel_left' append_take_drop_id mset_append)
  have dom: "usd_key y \<le> usd_key x" if "x \<in> set (take 5 S)" and "y \<in> set (drop 5 S)" for x y
    using sorted_desc_append_le [of usd_key "take 5 S" "drop 5 S"] sortS that by simp
  show ?thesis
    unfolding top rest
    using sortS msetS lenS dom mset_take_subseteq [of 5 S]
    by (auto simp: sorted_desc_take min.commute)
qed

theorem top_tokens_spec_witness:
  "map (\<lambda>b. bt_name (tok_baseToken (tb_token b)))
     (top_tokens [sample_balance ''A'' 10, sample_balance ''B'' 50, sample_balance ''C'' 30,
                  sample_balance ''D'' 50, sample_balance ''E'' 5, sample_balance ''F'' 60])
     = [''F'', ''B'', ''D'', ''C'', ''A'']
   \<and> sorted_desc usd_key
     (top_tokens [sample_balance ''A'' 10, sample_balance ''B'' 50, sample_balance ''C'' 30,
                  sample_balance ''D'' 50, sample_balance ''E'' 5, sample_balance ''F'' 60])
   \<and> mset [sample_balance ''A'' 10, sample_balance ''B'' 50, sample_balance ''C'' 30,
           sample_balance ''D'' 50, sample_balance ''E'' 5, sample_balance ''F'' 60]
     - mset (top_tokens [sample_balance ''A'' 10, sample_balance ''B'' 50,
                  sample_balance ''C'' 30, sample_balance ''D'' 50, sample_balance ''E'' 5,
                  sample_balance ''F'' 60])
     = {#sample_balance ''E'' 5#}"
  using top_tokens_spec [of "[sample_balance ''A'' 10, sample_balance ''B'' 50,
      sample_balance ''C'' 30, sample_balance ''D'' 50, sample_balance ''E'' 5, sample_balance ''F'' 60]"]
  by (simp add: top_tokens_def desc_by_def usd_key_def sample_balance_def)

subsection \<open>Network breakdown\<close>

text \<open>
  Claim C2. The network breakdown lists exactly the network totals that are
  positive, in descending order of total, and networks with equal totals keep the
  order of the response.
\<close>

theorem network_rows_spec:
  "mset (network_rows nets) = mset (filter (\<lambda>net. 0 < net_total net) nets)
   \<and> sorted_desc net_total (network_rows nets)
   \<and> (\<forall>k. filter (\<lambda>net. net_total net = k) (network_rows nets)
          = filter (\<lambda>net. net_total net = k) (filter (\<lambda>net. 0 < net_total net) nets))"
  by (simp add: network_rows_def sorted_desc_js_sort js_sort_desc_stable)

end
