(* ===== verification/Farcaster_Format.thy ===== *)
theory Farcaster_Format
  imports JS_Strings
begin

text \<open>
  The Farcaster formatter \<open>formatFarcasterData\<close> (\<open>src/dist/index.js\<close> lines
  95--102, from \<open>src/utils.ts\<close>). The records are the fields the
  \<open>GetFarcasterAddresses\<close> query selects (lines 283--296). The formatter reads
  \<open>data.data?.farcasterProfile\<close> with optional chaining, so a \<open>null\<close> profile
  yields no address instead of an exception, concatenates the connected addresses
  (or \<open>[]\<close>) with the custody address, and drops the falsy entries
  (\<open>filter(Boolean)\<close>): \<open>null\<close>, \<open>undefined\<close> and the empty string. The
  returned object \<open>{addresses}\<close> is modelled by its one field.
\<close>

record farcaster_metadata =
  md_displayName :: "string option"
  md_description :: "string option"
  md_imageUrl :: "string option"
  md_warpcast :: "string option"

record farcaster_profile =
  fp_username :: string
  fp_fid :: int
  fp_metadata :: farcaster_metadata
  fp_connectedAddresses :: "string list option"
  fp_custodyAddress :: "string option"

definition formatFarcasterData :: "farcaster_profile option gql_response \<Rightarrow> string list" where
  "formatFarcasterData data =
     (let profile = (case gql_data data of None \<Rightarrow> None | Some p \<Rightarrow> p);
          connectedList = (case profile of None \<Rightarrow> [] | Some p \<Rightarrow>
                         (case fp_connectedAddresses p of None \<Rightarrow> [] | Some xs \<Rightarrow> xs));
          custody = (case profile of None \<Rightarrow> None | Some p \<Rightarrow> fp_custodyAddress p);
          allAddresses = map Some connectedList @ [custody]
      in map the (filter js_truthy allAddresses))"

definition sample_profile :: "string list option \<Rightarrow> string option \<Rightarrow> farcaster_profile" where
  "sample_profile conn cust =
     \<lparr>fp_username = ''dwr.eth'', fp_fid = 3,
      fp_metadata = \<lparr>md_displayName = None, md_description = None, md_imageUrl = None,
                     md_warpcast = None\<rparr>,
      fp_connectedAddresses = conn, fp_custodyAddress = cust\<rparr>"

lemma map_the_filter_truthy_Some:
  "map the (filter js_truthy (map Some xs)) = filter (\<lambda>a. a \<noteq> []) xs"
  by (induction xs) auto

lemma js_truthy_custody:
  "map the (filter js_truthy [c]) = (case c of None \<Rightarrow> [] | Some a \<Rightarrow> filter (\<lambda>a. a \<noteq> []) [a])"
  by (cases c) auto

lemma map_the_filter_truthy_nonempty: "a \<in> set (map the (filter js_truthy xs)) \<Longrightarrow> a \<noteq> []"
proof -
  have "js_truthy x \<Longrightarrow> the x \<noteq> []" for x
    by (cases x) auto
  then show "a \<in> set (map the (filter js_truthy xs)) \<Longrightarrow> a \<noteq> []"
    by auto
qed

lemma formatFarcasterData_nonempty: "a \<in> set (formatFarcasterData data) \<Longrightarrow> a \<noteq> []"
  unfolding formatFarcasterData_def Let_def by (rule map_the_filter_truthy_nonempty)

text \<open>
  Claim C6. The addresses are the non-empty connected addresses, in response order,
  followed by the custody address when it is present and non-empty; a \<open>null\<close>
  \<open>data\<close> or profile gives no address.
\<close>

theorem formatFarcasterData_spec:
  "formatFarcasterData data =
     (case gql_data data of
        Some (Some p) \<Rightarrow>
          filter (\<lambda>a. a \<noteq> [])
            ((case fp_connectedAddresses p of None \<Rightarrow> [] | Some xs \<Rightarrow> xs)
             @ (case fp_custodyAddress p of None \<Rightarrow> [] | Some c \<Rightarrow> [c]))
      | _ \<Rightarrow> [])"
  by (auto simp: formatFarcasterData_def Let_def map_the_filter_truthy_Some js_truthy_custody
      split: option.splits)

end
