(* ===== verification/Base64.thy ===== *)
theory Base64
  imports Prelude
begin

unbundle bit_operations_syntax

text \<open>
  \<open>btoa\<close>, the base64 encoder of the host (HTML \<open>forgiving-base64 encode\<close>,
  RFC 4648 alphabet with \<open>=\<close> padding), which \<open>getZapperHeaders\<close> applies to the
  API key. It is not code of the repository and is modelled from its standard.
  \<open>btoa\<close> reads the string as bytes, one per code unit; it throws for a code unit
  above 255, which the 8-bit \<^typ>\<open>char\<close> of the model cannot hold, so that branch
  is absent. Each group of three bytes becomes four characters of six bits each
  (\<open>b64_encode\<close>, written with the shifts and masks of \<open>8 word\<close>).
  \<open>b64_decode\<close> is the decoder a server applies to the credential; the lemmas
  show it inverts the encoder.
\<close>

definition b64_alphabet :: string where
  "b64_alphabet = ''ABCDEFGHIJKLMNOPQRSTUVWXYZabcdefghijklmnopqrstuvwxyz0123456789+/''"

definition b64_char :: "byte \<Rightarrow> char" where
  "b64_char s = b64_alphabet ! unat s"

definition byte_of_char :: "char \<Rightarrow> byte" where
  "byte_of_char c = word_of_nat (of_char c)"

definition char_of_byte :: "byte \<Rightarrow> char" where
  "char_of_byte b = char_of (unat b)"

fun b64_encode :: "byte list \<Rightarrow> string" where
  "b64_encode (a # b # c # rest) =
     [b64_char (drop_bit 2 a), b64_char (push_bit 4 (a AND mask 2) OR drop_bit 4 b),
      b64_char (push_bit 2 (b AND mask 4) OR drop_bit 6 c), b64_char (c AND mask 6)]
     @ b64_encode rest"
| "b64_encode [a, b] =
     [b64_char (drop_bit 2 a), b64_char (push_bit 4 (a AND mask 2) OR drop_bit 4 b),
      b64_char (push_bit 2 (b AND mask 4)), CHR ''='']"
| "b64_encode [a] =
     [b64_char (drop_bit 2 a), b64_char (push_bit 4 (a AND mask 2)), CHR ''='', CHR ''='']"
| "b64_encode [] = []"

definition btoa :: "string \<Rightarrow> string" where
  "btoa s = b64_encode (map byte_of_char s)"

fun pos_in :: "char \<Rightarrow> string \<Rightarrow> nat" where
  "pos_in c [] = 0"
| "pos_in c (x # xs) = (if x = c then 0 else Suc (pos_in c xs))"

definition b64_index :: "char \<Rightarrow> byte option" where
  "b64_index c = (let n = pos_in c b64_alphabet in if n < 64 then Some (word_of_nat n) else None)"

fun b64_decode :: "string \<Rightarrow> byte list option" where
  "b64_decode [] = Some []"
| "b64_decode (c0 # c1 # c2 # c3 # rest) =
     (case (b64_index c0, b64_index c1) of
        (Some s0, Some s1) \<Rightarrow>
          (let a = push_bit 2 s0 OR drop_bit 4 s1
           in if c2 = CHR ''='' \<and> c3 = CHR ''='' \<and> rest = [] then Some [a]
              else (case b64_index c2 of
                      None \<Rightarrow> None
                    | Some s2 \<Rightarrow>
                        (let b = push_bit 4 s1 OR drop_bit 2 s2
                         in if c3 = CHR ''='' \<and> rest = [] then Some [a, b]
                            else (case b64_index c3 of
                                    None \<Rightarrow> None
                                  | Some s3 \<Rightarrow>
                                      map_option (\<lambda>bs. a # b # (push_bit 6 s2 OR s3) # bs)
                                        (b64_decode rest)))))
      | _ \<Rightarrow> None)"
| "b64_decode _ = None"

definition atob :: "string \<Rightarrow> string option" where
  "atob s = map_option (map char_of_byte) (b64_decode s)"

subsection \<open>Bit identities of the sextet split\<close>

text \<open>
  Every identity is checked bit by bit over the eight positions of a byte
  (\<open>byte_eqI\<close>); \<open>b64_sextet\<close> collects that the four sextets fit six bits,
  \<open>b64_join\<close> that the decoder's shifts put the bytes back together.
\<close>

named_theorems b64_sextet and b64_join

lemma sextet0 [b64_sextet]: "take_bit 6 (drop_bit 2 a) = drop_bit 2 (a::byte)"
  by (rule byte_eqI) (auto simp: bit_simps, (simp_all add: eval_nat_numeral bit_byte_high)?)

lemma sextet1 [b64_sextet]:
  "take_bit 6 (push_bit 4 (a AND mask 2) OR drop_bit 4 b) = push_bit 4 (a AND mask 2) OR drop_bit 4 (b::byte)"
  by (rule byte_eqI) (auto simp: bit_simps, (simp_all add: eval_nat_numeral bit_byte_high)?)

lemma sextet2 [b64_sextet]:
  "take_bit 6 (push_bit 2 (b AND mask 4) OR drop_bit 6 c) = push_bit 2 (b AND mask 4) OR drop_bit 6 (c::byte)"
  by (rule byte_eqI) (auto simp: bit_simps, (simp_all add: eval_nat_numeral bit_byte_high)?)

lemma sextet3 [b64_sextet]: "take_bit 6 (c AND mask 6) = (c::byte) AND mask 6"
  by (rule byte_eqI) (auto simp: bit_simps, (simp_all add: eval_nat_numeral bit_byte_high)?)

lemma join0 [b64_join]:
  "push_bit 2 (drop_bit 2 a) OR drop_bit 4 (push_bit 4 (a AND mask 2) OR drop_bit 4 b) = (a::byte)"
  by (rule byte_eqI) (auto simp: bit_simps, (simp_all add: eval_nat_numeral bit_byte_high)?)

lemma join1 [b64_join]:
  "push_bit 4 (push_bit 4 (a AND mask 2) OR drop_bit 4 b) OR drop_bit 2 (push_bit 2 (b AND mask 4) OR drop_bit 6 c)
   = (b::byte)"
  by (rule byte_eqI) (auto simp: bit_simps, (simp_all add: eval_nat_numeral bit_byte_high)?)

lemma join2 [b64_join]:
  "push_bit 6 (push_bit 2 (b AND mask 4) OR drop_bit 6 c) OR (c AND mask 6) = (c::byte)"
  by (rule byte_eqI) (auto simp: bit_simps, (simp_all add: eval_nat_numeral bit_byte_high)?)

lemma sextet1_pad [b64_sextet]: "take_bit 6 (push_bit 4 (a AND mask 2)) = push_bit 4 ((a::byte) AND mask 2)"
  by (rule byte_eqI) (auto simp: bit_simps, (simp_all add: eval_nat_numeral bit_byte_high)?)

lemma sextet2_pad [b64_sextet]: "take_bit 6 (push_bit 2 (b AND mask 4)) = push_bit 2 ((b::byte) AND mask 4)"
  by (rule byte_eqI) (auto simp: bit_simps, (simp_all add: eval_nat_numeral bit_byte_high)?)

lemma join0_pad [b64_join]: "push_bit 2 (drop_bit 2 a) OR drop_bit 4 (push_bit 4 (a AND mask 2)) = (a::byte)"
  by (rule byte_eqI) (auto simp: bit_simps, (simp_all add: eval_nat_numeral bit_byte_high)?)

lemma join1_simp [b64_join]:
  "push_bit 4 (drop_bit 4 b) OR drop_bit 2 (push_bit 2 (b AND mask 4)) = (b::byte)"
  by (rule byte_eqI) (auto simp: bit_simps, (simp_all add: eval_nat_numeral bit_byte_high)?)

lemma join2_simp [b64_join]: "push_bit 6 (drop_bit 6 c) OR c AND mask 6 = (c::byte)"
  by (rule byte_eqI) (auto simp: bit_simps, (simp_all add: eval_nat_numeral bit_byte_high)?)

lemma join1_pad [b64_join]:
  "push_bit 4 (push_bit 4 (a AND mask 2) OR drop_bit 4 b) OR drop_bit 2 (push_bit 2 (b AND mask 4)) = (b::byte)"
  by (rule byte_eqI) (auto simp: bit_simps, (simp_all add: eval_nat_numeral bit_byte_high)?)

subsection \<open>The alphabet\<close>

lemma distinct_b64_alphabet: "distinct b64_alphabet"
  by (simp add: b64_alphabet_def)

lemma length_b64_alphabet: "length b64_alphabet = 64"
  by (simp add: b64_alphabet_def)

lemma pad_not_in_b64_alphabet: "CHR ''='' \<notin> set b64_alphabet"
  by (simp add: b64_alphabet_def)

lemma pos_in_nth: "distinct xs \<Longrightarrow> n < length xs \<Longrightarrow> pos_in (xs ! n) xs = n"
proof (induction xs arbitrary: n)
  case Nil
  then show ?case by simp
next
  case (Cons x xs)
  then show ?case by (cases n) auto
qed

lemma unat_sextet:
  assumes "take_bit 6 s = s"
  shows "unat (s::byte) < 64"
proof -
  have "unat (take_bit 6 s) = take_bit 6 (unat s)"
    by (rule unsigned_take_bit_eq)
  also have "\<dots> < 2 ^ 6"
    by (rule take_bit_nat_less_exp)
  finally show ?thesis using assms by simp
qed

lemma b64_index_char: "take_bit 6 s = s \<Longrightarrow> b64_index (b64_char s) = Some s"
  using unat_sextet [of s]
  by (simp add: b64_index_def b64_char_def pos_in_nth distinct_b64_alphabet length_b64_alphabet)

lemma b64_char_in_alphabet: "take_bit 6 s = s \<Longrightarrow> b64_char s \<in> set b64_alphabet"
  using unat_sextet [of s] by (simp add: b64_char_def length_b64_alphabet)

lemma b64_char_not_pad: "take_bit 6 s = s \<Longrightarrow> b64_char s \<noteq> CHR ''=''"
  using b64_char_in_alphabet pad_not_in_b64_alphabet by metis

lemmas b64_index_sextet [simp] =
  b64_index_char [OF sextet0] b64_index_char [OF sextet1] b64_index_char [OF sextet2]
  b64_index_char [OF sextet3] b64_index_char [OF sextet1_pad] b64_index_char [OF sextet2_pad]

lemmas b64_char_sextet_not_pad [simp] =
  b64_char_not_pad [OF sextet0] b64_char_not_pad [OF sextet1] b64_char_not_pad [OF sextet2]
  b64_char_not_pad [OF sextet3] b64_char_not_pad [OF sextet1_pad] b64_char_not_pad [OF sextet2_pad]

subsection \<open>Round trip\<close>

lemma b64_decode_encode: "b64_decode (b64_encode bs) = Some bs"
  by (induction bs rule: b64_encode.induct)
     (simp_all add: b64_join Let_def del: push_bit_and)

lemma char_of_byte_of_char [simp]: "char_of_byte (byte_of_char c) = c"
  by (simp add: char_of_byte_def byte_of_char_def unat_of_nat of_char_mod_256)

lemma length_b64_encode: "length (b64_encode bs) = 4 * ((length bs + 2) div 3)"
  by (induction bs rule: b64_encode.induct) (simp_all, presburger)

end
