(* ===== verification/Config.thy ===== *)
theory Config
  imports JS_Strings Base64
begin

text \<open>
  Configuration and request headers (\<open>src/dist/index.js\<close> lines 37--43 and
  104--123, from \<open>src/utils.ts\<close> and \<open>src/environment.ts\<close>).
  \<^item> \<open>zapperEnvironmentSchema_parse\<close> is the zod schema
    \<open>z.object({ZAPPER_API_KEY: z.string().min(1, ...)})\<close> applied to the one field:
    an absent value fails with zod's own message \<open>Required\<close>, an empty string
    with the schema's message, any other string passes.
  \<^item> \<open>validateZapperConfig\<close> takes the key from the host settings, falling back to
    the process environment when the setting is falsy (\<open>||\<close>), parses it, and
    turns a zod failure into an \<open>Error\<close> whose message joins the zod messages.
  \<^item> \<open>getZapperHeaders\<close> builds the two headers, the credential being \<open>btoa\<close> of
    the key alone.
  The host settings and the environment are functions from names to optional
  strings.
\<close>

record zapper_config =
  ZAPPER_API_KEY :: string

definition zapperEnvironmentSchema_parse :: "string option \<Rightarrow> string list + zapper_config" where
  "zapperEnvironmentSchema_parse v =
     (case v of
        None \<Rightarrow> Inl [''Required'']
      | Some k \<Rightarrow> if length k < 1 then Inl [''ZAPPER_API_KEY is required'']
                 else Inr \<lparr>ZAPPER_API_KEY = k\<rparr>)"

definition validateZapperConfig ::
  "(string \<Rightarrow> string option) \<Rightarrow> (string \<Rightarrow> string option) \<Rightarrow> zapper_config result" where
  "validateZapperConfig getSetting env =
     (let config = js_or (getSetting ''ZAPPER_API_KEY'') (env ''ZAPPER_API_KEY'')
      in case zapperEnvironmentSchema_parse config of
           Inl messages \<Rightarrow> Inl (Error (''Zapper Configuration Error:'' @ LF @ js_join LF messages))
         | Inr parsed \<Rightarrow> Inr parsed)"

definition getZapperHeaders :: "zapper_config \<Rightarrow> (string \<times> string) list" where
  "getZapperHeaders config =
     (let encodedKey = btoa (ZAPPER_API_KEY config)
      in [(''Content-Type'', ''application/json''), (''Authorization'', ''Basic '' @ encodedKey)])"

lemma validateZapperConfig_Inr_iff:
  "validateZapperConfig gs env = Inr c \<longleftrightarrow>
     js_or (gs ''ZAPPER_API_KEY'') (env ''ZAPPER_API_KEY'') = Some (ZAPPER_API_KEY c)
     \<and> ZAPPER_API_KEY c \<noteq> []"
  by (auto simp: validateZapperConfig_def zapperEnvironmentSchema_parse_def Let_def
      split: option.splits if_splits sum.splits)

text \<open>
  Claim C17. The configuration is accepted exactly when a non-empty key is found;
  the host setting takes precedence and the environment is read only when the
  setting is missing or empty.
\<close>

theorem validateZapperConfig_accepts:
  "validateZapperConfig gs env = Inr c \<longleftrightarrow>
     ZAPPER_API_KEY c \<noteq> []
     \<and> (if js_truthy (gs ''ZAPPER_API_KEY'') then gs ''ZAPPER_API_KEY'' = Some (ZAPPER_API_KEY c)
        else env ''ZAPPER_API_KEY'' = Some (ZAPPER_API_KEY c))"
  by (auto simp: validateZapperConfig_Inr_iff js_or_def)

text \<open>
  Claim C18. A rejected configuration reports zod's message: \<open>Required\<close> when
  neither source has a value at all, the schema's own message only when the value
  found is the empty string.
\<close>

theorem validateZapperConfig_errors:
  assumes "\<not> js_truthy (gs ''ZAPPER_API_KEY'')"
  shows "(env ''ZAPPER_API_KEY'' = None \<longrightarrow>
            validateZapperConfig gs env = Inl (Error (''Zapper Configuration Error:'' @ LF @ ''Required'')))
         \<and> (env ''ZAPPER_API_KEY'' = Some [] \<longrightarrow>
            validateZapperConfig gs env
            = Inl (Error (''Zapper Configuration Error:'' @ LF @ ''ZAPPER_API_KEY is required'')))"
  using assms
  by (simp add: validateZapperConfig_def zapperEnvironmentSchema_parse_def js_or_def)

theorem validateZapperConfig_errors_witness:
  "validateZapperConfig (\<lambda>_. Some []) (\<lambda>_. None)
     = Inl (Error (''Zapper Configuration Error:'' @ LF @ ''Required''))
   \<and> validateZapperConfig (\<lambda>_. None) (\<lambda>_. Some [])
     = Inl (Error (''Zapper Configuration Error:'' @ LF @ ''ZAPPER_API_KEY is required''))"
  using validateZapperConfig_errors [of "\<lambda>_. Some []" "\<lambda>_. None"]
    validateZapperConfig_errors [of "\<lambda>_. None" "\<lambda>_. Some []"]
  by simp

text \<open>
  Claim C19. The Authorization header is \<open>Basic\<close> followed by a credential that
  decodes to the API key, and the content type is JSON.
\<close>

theorem getZapperHeaders_spec:
  "map_of (getZapperHeaders config) ''Content-Type'' = Some ''application/json''
   \<and> (\<exists>cred. map_of (getZapperHeaders config) ''Authorization'' = Some (''Basic '' @ cred)
             \<and> atob cred = Some (ZAPPER_API_KEY config))"
  by (simp add: getZapperHeaders_def atob_def btoa_def b64_decode_encode comp_def)

end
