(* ===== verification/Host.thy ===== *)
theory Host
  imports Portfolio_Format Farcaster_Format Config
begin

text \<open>
  The host runtime as the handlers see it (elizaOS \<open>IAgentRuntime\<close>; not code of
  this repository). A handler is a function of the runtime, the inbound message and
  whether a callback was given, run over a \<open>host_state\<close>:
  \<^item> \<open>hs_memories\<close> is the memory store of \<open>runtime.messageManager\<close>;
  \<^item> \<open>hs_effects\<close> is the ordered trace of every interaction with the outside: a
    language-model call, a \<open>fetch\<close>, a memory write, a callback invocation.
  The services the runtime owns are parameters (\<open>runtime\<close>): the settings, the
  process environment, the language model and the GraphQL endpoint, each returning
  \<open>None\<close> where the service's promise rejects. A step returns its result or the
  thrown error together with the state reached, so effects made before a throw
  stay in the trace, as they do in the running program.
\<close>

record content =
  ct_text :: string
  ct_action :: "string option"
  ct_source :: "string option"
  ct_addresses :: "string list option"

record memory =
  mem_userId :: string
  mem_agentId :: string
  mem_roomId :: string
  mem_content :: content

datatype gql_query = PortfolioQuery "string list" | FarcasterQuery string

record http_request =
  req_url :: string
  req_method :: string
  req_headers :: "(string \<times> string) list"
  req_body :: gql_query

datatype effect =
    GenerateText string
  | Fetch http_request
  | CreateMemory memory
  | Callback content

record runtime =
  rt_getSetting :: "string \<Rightarrow> string option"
  rt_env :: "string \<Rightarrow> string option"
  rt_generateText :: "string \<Rightarrow> string option"
  rt_portfolio_api :: "http_request \<Rightarrow> portfolio option gql_response option"
  rt_farcaster_api :: "http_request \<Rightarrow> farcaster_profile option gql_response option"

record host_state =
  hs_memories :: "memory list"
  hs_effects :: "effect list"

type_synonym 'a step = "host_state \<Rightarrow> 'a result \<times> host_state"

definition sreturn :: "'a \<Rightarrow> 'a step" where
  "sreturn x s = (Inr x, s)"

definition sthrow :: "error \<Rightarrow> 'a step" where
  "sthrow e s = (Inl e, s)"

definition slift :: "'a result \<Rightarrow> 'a step" where
  "slift r s = (r, s)"

definition sbind :: "'a step \<Rightarrow> ('a \<Rightarrow> 'b step) \<Rightarrow> 'b step" where
  "sbind m f s = (case m s of (Inl e, s') \<Rightarrow> (Inl e, s') | (Inr x, s') \<Rightarrow> f x s')"

definition emit :: "effect \<Rightarrow> host_state \<Rightarrow> host_state" where
  "emit e s = s\<lparr>hs_effects := hs_effects s @ [e]\<rparr>"

definition generateText :: "runtime \<Rightarrow> string \<Rightarrow> string step" where
  "generateText rt context s =
     (case rt_generateText rt context of
        None \<Rightarrow> (Inl (ExternalError ''generateText''), emit (GenerateText context) s)
      | Some t \<Rightarrow> (Inr t, emit (GenerateText context) s))"

definition fetch_portfolio :: "runtime \<Rightarrow> http_request \<Rightarrow> portfolio option gql_response step" where
  "fetch_portfolio rt req s =
     (case rt_portfolio_api rt req of
        None \<Rightarrow> (Inl (ExternalError ''fetch''), emit (Fetch req) s)
      | Some data \<Rightarrow> (Inr data, emit (Fetch req) s))"

definition fetch_farcaster :: "runtime \<Rightarrow> http_request \<Rightarrow> farcaster_profile option gql_response step" where
  "fetch_farcaster rt req s =
     (case rt_farcaster_api rt req of
        None \<Rightarrow> (Inl (ExternalError ''fetch''), emit (Fetch req) s)
      | Some data \<Rightarrow> (Inr data, emit (Fetch req) s))"

definition createMemory :: "memory \<Rightarrow> unit step" where
  "createMemory m s = (Inr (), (emit (CreateMemory m) s)\<lparr>hs_memories := hs_memories s @ [m]\<rparr>)"

definition run_callback :: "bool \<Rightarrow> content \<Rightarrow> unit step" where
  "run_callback has_callback c s = (Inr (), if has_callback then emit (Callback c) s else s)"

definition zapper_endpoint :: string where
  "zapper_endpoint = ''https://public.zapper.xyz/graphql''"

definition gql_request :: "(string \<times> string) list \<Rightarrow> gql_query \<Rightarrow> http_request" where
  "gql_request headers body =
     \<lparr>req_url = zapper_endpoint, req_method = ''POST'', req_headers = headers, req_body = body\<rparr>"

subsection \<open>Step combinators\<close>

named_theorems step_simps "evaluation of the step combinators"

lemma sbind_sreturn [simp, step_simps]: "sbind (sreturn x) f = f x"
  by (simp add: sbind_def sreturn_def fun_eq_iff)

lemma sbind_sthrow [simp, step_simps]: "sbind (sthrow e) f = sthrow e"
  by (simp add: sbind_def sthrow_def fun_eq_iff)

lemma slift_Inl [simp, step_simps]: "slift (Inl e) = sthrow e"
  by (simp add: slift_def sthrow_def fun_eq_iff)

lemma slift_Inr [simp, step_simps]: "slift (Inr x) = sreturn x"
  by (simp add: slift_def sreturn_def fun_eq_iff)

lemma sbind_apply [step_simps]:
  "sbind m f s = (case m s of (Inl e, s') \<Rightarrow> (Inl e, s') | (Inr x, s') \<Rightarrow> f x s')"
  by (simp add: sbind_def)

lemma emit_memories [simp]: "hs_memories (emit e s) = hs_memories s"
  by (simp add: emit_def)

lemma emit_effects [simp]: "hs_effects (emit e s) = hs_effects s @ [e]"
  by (simp add: emit_def)

lemmas step_defs [step_simps] = sreturn_def sthrow_def generateText_def fetch_portfolio_def
  fetch_farcaster_def createMemory_def run_callback_def

end
