(* ===== verification/Portfolio_Action.thy ===== *)
theory Portfolio_Action
  imports Host
begin

text \<open>
  The \<open>ZAPPER_PORTFOLIO\<close> action (\<open>src/dist/index.js\<close> lines 126--234, from
  \<open>src/actions/portfolio/portfolio.ts\<close>). \<open>portfolio_handler\<close> is its
  \<open>handler\<close>: it asks the language model for the addresses in the message
  (\<open>portfolio_context\<close>), splits and trims the answer (\<open>parse_addresses\<close>),
  throws when no address is left, runs \<open>getZapperAssets\<close> (validate the
  configuration, build the headers, POST the \<open>Portfolio\<close> query, throw on an
  \<open>errors\<close> field, format), writes the response memory (\<open>portfolio_memory\<close>)
  and invokes the callback. The \<open>catch\<close> blocks only log and rethrow, so they
  do not appear.
\<close>

definition portfolio_context :: "string \<Rightarrow> string" where
  "portfolio_context text =
     ''Extract only the blockchain wallet addresses from this text, returning them as a ''
     @ ''comma-separated list with no other text or explanations. The message is:'' @ LF
     @ replicate 12 (CHR '' '') @ text"

definition parse_addresses :: "string \<Rightarrow> string list" where
  "parse_addresses extractedAddressesText =
     filter (\<lambda>addr. 0 < length addr) (map js_trim (js_split (CHR '','') extractedAddressesText))"

definition getZapperAssets :: "runtime \<Rightarrow> string list \<Rightarrow> string step" where
  "getZapperAssets rt addresses =
     sbind (slift (validateZapperConfig (rt_getSetting rt) (rt_env rt))) (\<lambda>config.
     sbind (fetch_portfolio rt (gql_request (getZapperHeaders config) (PortfolioQuery addresses))) (\<lambda>data.
       if gql_errors data \<noteq> None then sthrow (Error ''Failed to fetch data from Zapper API'')
       else slift (formatPortfolioData data)))"

definition portfolio_memory :: "memory \<Rightarrow> string \<Rightarrow> memory" where
  "portfolio_memory message assetsInfo =
     \<lparr>mem_userId = mem_userId message, mem_agentId = mem_agentId message,
      mem_roomId = mem_roomId message,
      mem_content = \<lparr>ct_text = utf8 [226, 154, 161] @ '' Here is the portfolio for the provided addresses:''
                               @ LF @ LF @ assetsInfo,
                     ct_action = Some ''ZAPPER_PORTFOLIO_RESPONSE'',
                     ct_source = ct_source (mem_content message),
                     ct_addresses = None\<rparr>\<rparr>"

definition portfolio_handler :: "runtime \<Rightarrow> memory \<Rightarrow> bool \<Rightarrow> bool step" where
  "portfolio_handler rt message has_callback =
     sbind (generateText rt (portfolio_context (ct_text (mem_content message)))) (\<lambda>extractedAddressesText.
       let addresses = parse_addresses extractedAddressesText
       in if addresses = [] then sthrow (Error ''No wallet addresses found in the message'')
          else sbind (getZapperAssets rt addresses) (\<lambda>assetsInfo.
                 let newMemory = portfolio_memory message assetsInfo
                 in sbind (createMemory newMemory) (\<lambda>_.
                    sbind (run_callback has_callback (mem_content newMemory)) (\<lambda>_.
                    sreturn True))))"

definition example_message :: "string \<Rightarrow> memory" where
  "example_message text =
     \<lparr>mem_userId = ''user'', mem_agentId = ''agent'', mem_roomId = ''room'',
      mem_content = \<lparr>ct_text = text, ct_action = None, ct_source = None, ct_addresses = None\<rparr>\<rparr>"

definition example_portfolio :: portfolio where
  "example_portfolio =
     \<lparr>tokenBalances = [sample_balance ''Ether'' 100], nftBalances = [],
      pf_totals = \<lparr>tot_total = 100, tot_totalWithNFT = 100,
                   tot_totalByNetwork = [\<lparr>net_network = ''ETHEREUM_MAINNET'', net_total = 100\<rparr>],
                   tot_holdings = []\<rparr>\<rparr>"

definition example_runtime :: "string \<Rightarrow> portfolio option gql_response \<Rightarrow> runtime" where
  "example_runtime answer response =
     \<lparr>rt_getSetting = (\<lambda>name. if name = ''ZAPPER_API_KEY'' then Some ''test-key'' else None),
      rt_env = (\<lambda>_. None), rt_generateText = (\<lambda>_. Some answer),
      rt_portfolio_api = (\<lambda>_. Some response), rt_farcaster_api = (\<lambda>_. None)\<rparr>"

definition empty_state :: host_state where
  "empty_state = \<lparr>hs_memories = [], hs_effects = []\<rparr>"

subsection \<open>Address extraction\<close>

lemma parse_addresses_wf:
  "a \<in> set (parse_addresses t) \<Longrightarrow> a \<noteq> [] \<and> CHR '','' \<notin> set a \<and> js_trim a = a"
proof -
  assume "a \<in> set (parse_addresses t)"
  then obtain w where w: "w \<in> set (js_split (CHR '','') t)" and a: "a = js_trim w" and ne: "a \<noteq> []"
    by (auto simp: parse_addresses_def)
  have "CHR '','' \<notin> set w" using w by (rule js_split_pieces)
  moreover have "set (js_trim w) \<subseteq> set w"
    by (rule set_js_trim)
  ultimately show ?thesis using a ne by (auto simp: js_trim_idem)
qed

lemma js_trim_space_Cons: "js_trim (CHR '' '' # x) = js_trim x"
  by (simp add: js_trim_ws_Cons)

lemma parse_addresses_js_join:
  assumes "\<forall>a \<in> set xs. a \<noteq> [] \<and> CHR '','' \<notin> set a \<and> js_trim a = a"
  shows "parse_addresses (js_join '', '' xs) = xs"
proof (cases xs)
  case Nil
  then show ?thesis by (simp add: parse_addresses_def js_trim_def)
next
  case (Cons w ws)
  have split: "js_split (CHR '','') (js_join (CHR '','' # '' '') (w # ws)) = w # map (\<lambda>x. '' '' @ x) ws"
    using assms Cons by (intro js_split_join_sep) auto
  have "map js_trim (w # map (\<lambda>x. '' '' @ x) ws) = w # ws"
    using assms Cons by (simp add: js_trim_space_Cons map_idI)
  then show ?thesis
    using assms Cons split by (simp add: parse_addresses_def filter_id_conv)
qed

text \<open>
  Claim C12. Address extraction yields non-empty, comma-free, trimmed addresses,
  and it inverts the list the language model is asked to produce: joining
  well-formed addresses with \<open>", "\<close> and parsing the text gives them back in order.
\<close>

theorem parse_addresses_spec:
  "(\<forall>a \<in> set (parse_addresses t). a \<noteq> [] \<and> CHR '','' \<notin> set a \<and> js_trim a = a)
   \<and> ((\<forall>a \<in> set xs. a \<noteq> [] \<and> CHR '','' \<notin> set a \<and> js_trim a = a)
      \<longrightarrow> parse_addresses (js_join '', '' xs) = xs)"
  using parse_addresses_wf [of _ t] parse_addresses_js_join [of xs] by blast

theorem parse_addresses_spec_witness:
  "parse_addresses ''0x1, 0x2 ,'' = [''0x1'', ''0x2'']
   \<and> parse_addresses (js_join '', '' [''0x1'', ''0x2'']) = [''0x1'', ''0x2'']"
  using parse_addresses_spec [of "''0x1, 0x2 ,''" "[''0x1'', ''0x2'']"]
  by (simp add: js_trim_def js_whitespace_def parse_addresses_def)

subsection \<open>The handler, branch by branch\<close>

text \<open>
  The hypotheses of each theorem fix what the host services answer: the language
  model's text, the configuration, the GraphQL response. The conclusion gives the
  handler's result and the whole state it leaves: the memories and the trace.
\<close>

text \<open>
  Claim C9. When the language model's answer contains no address the handler
  throws before any request: the only effect is the language-model call.
\<close>

theorem portfolio_handler_no_addresses:
  assumes "rt_generateText rt (portfolio_context (ct_text (mem_content msg))) = Some t"
    and "parse_addresses t = []"
  shows "portfolio_handler rt msg cb s =
           (Inl (Error ''No wallet addresses found in the message''),
            emit (GenerateText (portfolio_context (ct_text (mem_content msg)))) s)"
  using assms by (simp add: portfolio_handler_def step_simps)

theorem portfolio_handler_no_addresses_witness:
  "portfolio_handler (example_runtime '' , '' \<lparr>gql_data = None, gql_errors = None\<rparr>)
      (example_message ''hello'') False empty_state
   = (Inl (Error ''No wallet addresses found in the message''),
      \<lparr>hs_memories = [], hs_effects = [GenerateText (portfolio_context ''hello'')]\<rparr>)"
  using portfolio_handler_no_addresses [of "example_runtime '' , '' \<lparr>gql_data = None, gql_errors = None\<rparr>"
      "example_message ''hello''" "'' , ''" False empty_state]
  by (simp add: example_runtime_def example_message_def empty_state_def emit_def
      parse_addresses_def js_trim_def js_whitespace_def)

text \<open>
  Claim C10. The configuration is validated on every call before the request: a
  missing or empty API key makes the handler throw the configuration error with no
  request sent and no memory written.
\<close>

theorem portfolio_handler_config_error:
  assumes "rt_generateText rt (portfolio_context (ct_text (mem_content msg))) = Some t"
    and "parse_addresses t \<noteq> []"
    and "validateZapperConfig (rt_getSetting rt) (rt_env rt) = Inl e"
  shows "portfolio_handler rt msg cb s =
           (Inl e, emit (GenerateText (portfolio_context (ct_text (mem_content msg)))) s)"
  using assms by (simp add: portfolio_handler_def getZapperAssets_def step_simps Let_def)

theorem portfolio_handler_config_error_witness:
  "portfolio_handler ((example_runtime ''0xABC'' \<lparr>gql_data = None, gql_errors = None\<rparr>)
        \<lparr>rt_getSetting := (\<lambda>_. None)\<rparr>)
      (example_message ''0xABC'') False empty_state
   = (Inl (Error (''Zapper Configuration Error:'' @ LF @ ''Required'')),
      \<lparr>hs_memories = [], hs_effects = [GenerateText (portfolio_context ''0xABC'')]\<rparr>)"
proof -
  have "parse_addresses ''0xABC'' = [''0xABC'']"
    by (simp add: parse_addresses_def js_trim_def js_whitespace_def)
  then show ?thesis
    using portfolio_handler_config_error [of
        "(example_runtime ''0xABC'' \<lparr>gql_data = None, gql_errors = None\<rparr>)\<lparr>rt_getSetting := (\<lambda>_. None)\<rparr>"
        "example_message ''0xABC''" "''0xABC''" "Error (''Zapper Configuration Error:'' @ LF @ ''Required'')"
        False empty_state]
    by (simp add: example_runtime_def example_message_def empty_state_def emit_def
        validateZapperConfig_def js_or_def zapperEnvironmentSchema_parse_def)
qed

text \<open>
  Claim C3. A GraphQL response that carries an \<open>errors\<close> field makes the handler
  throw the upstream error whatever its \<open>data\<close> is (no formatting is attempted):
  the trace ends with the request, and no memory is written and no callback made.
\<close>

theorem portfolio_upstream_error:
  assumes "rt_generateText rt (portfolio_context (ct_text (mem_content msg))) = Some t"
    and "parse_addresses t \<noteq> []"
    and "validateZapperConfig (rt_getSetting rt) (rt_env rt) = Inr config"
    and "rt_portfolio_api rt (gql_request (getZapperHeaders config) (PortfolioQuery (parse_addresses t)))
         = Some resp"
    and "gql_errors resp \<noteq> None"
  shows "portfolio_handler rt msg cb s =
           (Inl (Error ''Failed to fetch data from Zapper API''),
            emit (Fetch (gql_request (getZapperHeaders config) (PortfolioQuery (parse_addresses t))))
              (emit (GenerateText (portfolio_context (ct_text (mem_content msg)))) s))"
  using assms by (simp add: portfolio_handler_def getZapperAssets_def step_simps Let_def)

theorem portfolio_upstream_error_witness:
  "portfolio_handler (example_runtime ''0xABC'' \<lparr>gql_data = None, gql_errors = Some [''x'']\<rparr>)
      (example_message ''Show me holdings for 0xABC'') True empty_state
   = (Inl (Error ''Failed to fetch data from Zapper API''),
      \<lparr>hs_memories = [],
       hs_effects = [GenerateText (portfolio_context ''Show me holdings for 0xABC''),
                     Fetch (gql_request (getZapperHeaders \<lparr>ZAPPER_API_KEY = ''test-key''\<rparr>)
                               (PortfolioQuery [''0xABC'']))]\<rparr>)"
proof -
  have "parse_addresses ''0xABC'' = [''0xABC'']"
    by (simp add: parse_addresses_def js_trim_def js_whitespace_def)
  moreover have "validateZapperConfig
      (rt_getSetting (example_runtime ''0xABC'' \<lparr>gql_data = None, gql_errors = Some [''x'']\<rparr>))
      (rt_env (example_runtime ''0xABC'' \<lparr>gql_data = None, gql_errors = Some [''x'']\<rparr>))
      = Inr \<lparr>ZAPPER_API_KEY = ''test-key''\<rparr>"
    by (simp add: example_runtime_def validateZapperConfig_def js_or_def zapperEnvironmentSchema_parse_def)
  ultimately show ?thesis
    using portfolio_upstream_error [of "example_runtime ''0xABC'' \<lparr>gql_data = None, gql_errors = Some [''x'']\<rparr>"
        "example_message ''Show me holdings for 0xABC''" "''0xABC''" "\<lparr>ZAPPER_API_KEY = ''test-key''\<rparr>"
        "\<lparr>gql_data = None, gql_errors = Some [''x'']\<rparr>" True empty_state]
    by (simp add: example_runtime_def example_message_def empty_state_def emit_def)
qed

text \<open>
  Claim C11. A response with no \<open>errors\<close> field whose \<open>data\<close> or
  \<open>data.portfolio\<close> is \<open>null\<close> is not reported as an empty portfolio: reading
  its fields throws a \<open>TypeError\<close>, which the handler propagates after the
  request with no memory written and no callback made.
\<close>

theorem portfolio_handler_malformed:
  assumes "rt_generateText rt (portfolio_context (ct_text (mem_content msg))) = Some t"
    and "parse_addresses t \<noteq> []"
    and "validateZapperConfig (rt_getSetting rt) (rt_env rt) = Inr config"
    and "rt_portfolio_api rt (gql_request (getZapperHeaders config) (PortfolioQuery (parse_addresses t)))
         = Some resp"
    and "gql_errors resp = None" and "\<forall>p. gql_data resp \<noteq> Some (Some p)"
  shows "\<exists>field. portfolio_handler rt msg cb s =
           (Inl (TypeError field),
            emit (Fetch (gql_request (getZapperHeaders config) (PortfolioQuery (parse_addresses t))))
              (emit (GenerateText (portfolio_context (ct_text (mem_content msg)))) s))"
  using assms
  by (cases "gql_data resp" rule: option.exhaust [case_product option.exhaust])
     (simp_all add: portfolio_handler_def getZapperAssets_def formatPortfolioData_def step_simps Let_def)

theorem portfolio_handler_malformed_witness:
  "\<exists>field. portfolio_handler (example_runtime ''0xABC'' \<lparr>gql_data = Some None, gql_errors = None\<rparr>)
      (example_message ''0xABC'') False empty_state
   = (Inl (TypeError field),
      \<lparr>hs_memories = [],
       hs_effects = [GenerateText (portfolio_context ''0xABC''),
                     Fetch (gql_request (getZapperHeaders \<lparr>ZAPPER_API_KEY = ''test-key''\<rparr>)
                               (PortfolioQuery [''0xABC'']))]\<rparr>)"
proof -
  have "parse_addresses ''0xABC'' = [''0xABC'']"
    by (simp add: parse_addresses_def js_trim_def js_whitespace_def)
  moreover have "validateZapperConfig
      (rt_getSetting (example_runtime ''0xABC'' \<lparr>gql_data = Some None, gql_errors = None\<rparr>))
      (rt_env (example_runtime ''0xABC'' \<lparr>gql_data = Some None, gql_errors = None\<rparr>))
      = Inr \<lparr>ZAPPER_API_KEY = ''test-key''\<rparr>"
    by (simp add: example_runtime_def validateZapperConfig_def js_or_def zapperEnvironmentSchema_parse_def)
  ultimately show ?thesis
    using portfolio_handler_malformed [of "example_runtime ''0xABC'' \<lparr>gql_data = Some None, gql_errors = None\<rparr>"
        "example_message ''0xABC''" "''0xABC''" "\<lparr>ZAPPER_API_KEY = ''test-key''\<rparr>"
        "\<lparr>gql_data = Some None, gql_errors = None\<rparr>" False empty_state]
    by (simp add: example_runtime_def example_message_def empty_state_def emit_def)
qed

text \<open>
  Claim C4. When every service answers, the handler returns \<open>true\<close> having
  called the language model, sent the \<open>Portfolio\<close> query for the parsed addresses
  with the configured headers, stored one memory holding the formatted report and
  tagged \<open>ZAPPER_PORTFOLIO_RESPONSE\<close>, and, when a callback was given, passed it
  that memory's content, in this order.
\<close>

theorem portfolio_handler_success:
  assumes "rt_generateText rt (portfolio_context (ct_text (mem_content msg))) = Some t"
    and "parse_addresses t \<noteq> []"
    and "validateZapperConfig (rt_getSetting rt) (rt_env rt) = Inr config"
    and "rt_portfolio_api rt (gql_request (getZapperHeaders config) (PortfolioQuery (parse_addresses t)))
         = Some resp"
    and "gql_errors resp = None" and "gql_data resp = Some (Some p)"
  shows "portfolio_handler rt msg cb s =
     (Inr True,
      s\<lparr>hs_memories := hs_memories s @ [portfolio_memory msg (render_portfolio p)],
        hs_effects := hs_effects s @
          [GenerateText (portfolio_context (ct_text (mem_content msg))),
           Fetch (gql_request (getZapperHeaders config) (PortfolioQuery (parse_addresses t))),
           CreateMemory (portfolio_memory msg (render_portfolio p))]
          @ (if cb then [Callback (mem_content (portfolio_memory msg (render_portfolio p)))] else [])\<rparr>)"
  using assms
  by (simp add: portfolio_handler_def getZapperAssets_def formatPortfolioData_def step_simps Let_def emit_def)

lemma format_usd_100: "format_usd 100 = ''$100.00''"
  by code_simp

lemma format_max4_1: "format_max4 1 = ''1''"
  by code_simp

lemma example_report:
  "render_portfolio example_portfolio =
     utf8 [240, 159, 146, 176] @ '' Portfolio Summary:'' @ LF
     @ ''Total Value (excluding NFTs): $100.00'' @ LF
     @ ''Total Value (including NFTs): $100.00'' @ LF
     @ ''        '' @ LF
     @ utf8 [240, 159, 140, 144] @ '' Network Breakdown:'' @ LF
     @ ''ETHEREUM_MAINNET: $100.00'' @ LF
     @ ''        '' @ LF
     @ utf8 [240, 159, 170, 153] @ '' Top Token Holdings:'' @ LF
     @ ''Ether (Ether)'' @ LF @ ''Network: ETHEREUM_MAINNET'' @ LF @ ''Balance: 1'' @ LF
     @ ''Value: $100.00'' @ LF
     @ ''        '' @ LF
     @ utf8 [240, 159, 142, 168] @ '' NFT Holdings:'' @ LF"
  by (simp add: render_portfolio_def example_portfolio_def top_tokens_def network_rows_def
      token_line_def network_line_def sample_balance_def format_usd_100 format_max4_1 Let_def desc_by_def)

text \<open>
  The witness is the example of the specification: the message names one address,
  the model returns it, and the portfolio holds one token worth \$100.
\<close>

theorem portfolio_handler_success_witness:
  "portfolio_handler (example_runtime ''0xABC'' \<lparr>gql_data = Some (Some example_portfolio), gql_errors = None\<rparr>)
      (example_message ''Show me holdings for 0xABC'') True empty_state
   = (Inr True,
      \<lparr>hs_memories = [portfolio_memory (example_message ''Show me holdings for 0xABC'') (render_portfolio example_portfolio)],
       hs_effects = [GenerateText (portfolio_context ''Show me holdings for 0xABC''),
                     Fetch (gql_request (getZapperHeaders \<lparr>ZAPPER_API_KEY = ''test-key''\<rparr>)
                               (PortfolioQuery [''0xABC''])),
                     CreateMemory (portfolio_memory (example_message ''Show me holdings for 0xABC'')
                                     (render_portfolio example_portfolio)),
                     Callback (mem_content (portfolio_memory (example_message ''Show me holdings for 0xABC'')
                                              (render_portfolio example_portfolio)))]\<rparr>)
   \<and> render_portfolio example_portfolio =
     utf8 [240, 159, 146, 176] @ '' Portfolio Summary:'' @ LF
     @ ''Total Value (excluding NFTs): $100.00'' @ LF
     @ ''Total Value (including NFTs): $100.00'' @ LF
     @ ''        '' @ LF
     @ utf8 [240, 159, 140, 144] @ '' Network Breakdown:'' @ LF
     @ ''ETHEREUM_MAINNET: $100.00'' @ LF
     @ ''        '' @ LF
     @ utf8 [240, 159, 170, 153] @ '' Top Token Holdings:'' @ LF
     @ ''Ether (Ether)'' @ LF @ ''Network: ETHEREUM_MAINNET'' @ LF @ ''Balance: 1'' @ LF
     @ ''Value: $100.00'' @ LF
     @ ''        '' @ LF
     @ utf8 [240, 159, 142, 168] @ '' NFT Holdings:'' @ LF"
proof -
  have "parse_addresses ''0xABC'' = [''0xABC'']"
    by (simp add: parse_addresses_def js_trim_def js_whitespace_def)
  moreover have "validateZapperConfig
      (rt_getSetting (example_runtime ''0xABC'' \<lparr>gql_data = Some (Some example_portfolio), gql_errors = None\<rparr>))
      (rt_env (example_runtime ''0xABC'' \<lparr>gql_data = Some (Some example_portfolio), gql_errors = None\<rparr>))
      = Inr \<lparr>ZAPPER_API_KEY = ''test-key''\<rparr>"
    by (simp add: example_runtime_def validateZapperConfig_def js_or_def zapperEnvironmentSchema_parse_def)
  ultimately have "portfolio_handler
      (example_runtime ''0xABC'' \<lparr>gql_data = Some (Some example_portfolio), gql_errors = None\<rparr>)
      (example_message ''Show me holdings for 0xABC'') True empty_state
   = (Inr True,
      \<lparr>hs_memories = [portfolio_memory (example_message ''Show me holdings for 0xABC'') (render_portfolio example_portfolio)],
       hs_effects = [GenerateText (portfolio_context ''Show me holdings for 0xABC''),
                     Fetch (gql_request (getZapperHeaders \<lparr>ZAPPER_API_KEY = ''test-key''\<rparr>)
                               (PortfolioQuery [''0xABC''])),
                     CreateMemory (portfolio_memory (example_message ''Show me holdings for 0xABC'')
                                     (render_portfolio example_portfolio)),
                     Callback (mem_content (portfolio_memory (example_message ''Show me holdings for 0xABC'')
                                              (render_portfolio example_portfolio)))]\<rparr>)"
    using portfolio_handler_success [of
        "example_runtime ''0xABC'' \<lparr>gql_data = Some (Some example_portfolio), gql_errors = None\<rparr>"
        "example_message ''Show me holdings for 0xABC''" "''0xABC''" "\<lparr>ZAPPER_API_KEY = ''test-key''\<rparr>"
        "\<lparr>gql_data = Some (Some example_portfolio), gql_errors = None\<rparr>" example_portfolio True empty_state]
    by (simp add: example_runtime_def example_message_def empty_state_def)
  then show ?thesis by (simp only: example_report)
qed

subsection \<open>What the handler reads from the message\<close>

text \<open>
  Claim C15. The handler never reads the \<open>addresses\<close> field of the message
  content: a message that carries resolved addresses (as the Farcaster handler's
  memory does) is handled exactly as the same message without them, so the
  addresses are re-extracted from the text by the language model.
\<close>

theorem portfolio_handler_ignores_addresses:
  "portfolio_handler rt (msg\<lparr>mem_content := (mem_content msg)\<lparr>ct_addresses := a\<rparr>\<rparr>) cb
   = portfolio_handler rt msg cb"
proof -
  have eq: "portfolio_memory (msg\<lparr>mem_content := (mem_content msg)\<lparr>ct_addresses := a\<rparr>\<rparr>)
           = portfolio_memory msg"
    by (simp add: portfolio_memory_def fun_eq_iff)
  show ?thesis unfolding portfolio_handler_def eq by simp
qed

end
