(* ===== verification/Farcaster_Action.thy ===== *)
theory Farcaster_Action
  imports Host
begin

text \<open>
  The \<open>FARCASTER_PORTFOLIO\<close> action (\<open>src/dist/index.js\<close> lines 272--360, from
  \<open>src/actions/farcasterPortfolio/farcasterPortfolio.ts\<close>). \<open>farcaster_handler\<close>
  asks the language model for the username, uses the answer as it is (no trimming),
  runs \<open>getFarcasterAddresses\<close> (validate the configuration, POST the
  \<open>GetFarcasterAddresses\<close> query, throw on an \<open>errors\<close> field, format), throws
  when no address is found, writes a memory tagged with the next action
  \<open>ZAPPER_PORTFOLIO\<close> that carries the addresses, invokes the callback, and hands
  that memory to the host's \<open>processActions\<close>.
  The host's dispatcher is the parameter \<open>processActions\<close>: this theory does not
  depend on what it does; \<open>Plugin\<close> instantiates it with the dispatch of the
  plugin's actions. \<open>farcaster_message\<close> and \<open>farcaster_runtime\<close> are test
  inputs for the witnesses.
\<close>

definition farcaster_context :: "string \<Rightarrow> string" where
  "farcaster_context text =
     ''Extract the Farcaster username from this text, returning it as a string with no @ ''
     @ ''symbols or other text. The message is:'' @ LF @ replicate 12 (CHR '' '') @ text"

definition getFarcasterAddresses :: "runtime \<Rightarrow> string \<Rightarrow> string list step" where
  "getFarcasterAddresses rt username =
     sbind (slift (validateZapperConfig (rt_getSetting rt) (rt_env rt))) (\<lambda>config.
     sbind (fetch_farcaster rt (gql_request (getZapperHeaders config) (FarcasterQuery username))) (\<lambda>data.
       if gql_errors data \<noteq> None then sthrow (Error ''Failed to fetch Farcaster addresses'')
       else sreturn (formatFarcasterData data)))"

definition farcaster_memory :: "memory \<Rightarrow> string list \<Rightarrow> memory" where
  "farcaster_memory message addresses =
     \<lparr>mem_userId = mem_userId message, mem_agentId = mem_agentId message,
      mem_roomId = mem_roomId message,
      mem_content = \<lparr>ct_text = ''Fetching portfolio for addresses: '' @ js_join '', '' addresses,
                     ct_action = Some ''ZAPPER_PORTFOLIO'',
                     ct_source = ct_source (mem_content message),
                     ct_addresses = Some addresses\<rparr>\<rparr>"

definition farcaster_handler ::
  "(memory \<Rightarrow> bool \<Rightarrow> unit step) \<Rightarrow> runtime \<Rightarrow> memory \<Rightarrow> bool \<Rightarrow> bool step" where
  "farcaster_handler processActions rt message has_callback =
     sbind (generateText rt (farcaster_context (ct_text (mem_content message)))) (\<lambda>usernameText.
       let username = usernameText
       in sbind (getFarcasterAddresses rt username) (\<lambda>addresses.
            if addresses = [] then sthrow (Error ''No addresses found for these Farcaster accounts'')
            else
              let newMemory = farcaster_memory message addresses
              in sbind (createMemory newMemory) (\<lambda>_.
                 sbind (run_callback has_callback (mem_content newMemory)) (\<lambda>_.
                 sbind (processActions newMemory has_callback) (\<lambda>_.
                 sreturn True)))))"


definition farcaster_message :: "string \<Rightarrow> memory" where
  "farcaster_message text =
     \<lparr>mem_userId = ''user'', mem_agentId = ''agent'', mem_roomId = ''room'',
      mem_content = \<lparr>ct_text = text, ct_action = Some ''FARCASTER_PORTFOLIO'', ct_source = None,
                     ct_addresses = None\<rparr>\<rparr>"

definition farcaster_runtime :: "string \<Rightarrow> farcaster_profile option gql_response \<Rightarrow> runtime" where
  "farcaster_runtime username response =
     \<lparr>rt_getSetting = (\<lambda>name. if name = ''ZAPPER_API_KEY'' then Some ''test-key'' else None),
      rt_env = (\<lambda>_. None), rt_generateText = (\<lambda>_. Some username),
      rt_portfolio_api = (\<lambda>_. None), rt_farcaster_api = (\<lambda>_. Some response)\<rparr>"

subsection \<open>The handler's error branches\<close>

lemma farcaster_runtime_config:
  "validateZapperConfig (rt_getSetting (farcaster_runtime u r)) (rt_env (farcaster_runtime u r))
   = Inr \<lparr>ZAPPER_API_KEY = ''test-key''\<rparr>"
  by (simp add: farcaster_runtime_def validateZapperConfig_def js_or_def zapperEnvironmentSchema_parse_def)

text \<open>
  Claim C8. When the Farcaster response has no usable address the handler throws
  after the request: no memory is written, no callback is made and no action is
  dispatched.
\<close>

theorem farcaster_handler_no_addresses:
  assumes "rt_generateText rt (farcaster_context (ct_text (mem_content msg))) = Some u"
    and "validateZapperConfig (rt_getSetting rt) (rt_env rt) = Inr config"
    and "rt_farcaster_api rt (gql_request (getZapperHeaders config) (FarcasterQuery u)) = Some resp"
    and "gql_errors resp = None" and "formatFarcasterData resp = []"
  shows "farcaster_handler pa rt msg cb s =
           (Inl (Error ''No addresses found for these Farcaster accounts''),
            emit (Fetch (gql_request (getZapperHeaders config) (FarcasterQuery u)))
              (emit (GenerateText (farcaster_context (ct_text (mem_content msg)))) s))"
  using assms by (simp add: farcaster_handler_def getFarcasterAddresses_def step_simps Let_def)

theorem farcaster_handler_no_addresses_witness:
  "farcaster_handler (\<lambda>_ _. sreturn ()) (farcaster_runtime ''nobody'' \<lparr>gql_data = Some None, gql_errors = None\<rparr>)
      (farcaster_message ''@nobody'') True \<lparr>hs_memories = [], hs_effects = []\<rparr>
   = (Inl (Error ''No addresses found for these Farcaster accounts''),
      \<lparr>hs_memories = [],
       hs_effects = [GenerateText (farcaster_context ''@nobody''),
                     Fetch (gql_request (getZapperHeaders \<lparr>ZAPPER_API_KEY = ''test-key''\<rparr>)
                              (FarcasterQuery ''nobody''))]\<rparr>)"
  using farcaster_handler_no_addresses [of "farcaster_runtime ''nobody'' \<lparr>gql_data = Some None, gql_errors = None\<rparr>"
      "farcaster_message ''@nobody''" "''nobody''" "\<lparr>ZAPPER_API_KEY = ''test-key''\<rparr>"
      "\<lparr>gql_data = Some None, gql_errors = None\<rparr>" "\<lambda>_ _. sreturn ()" True
      "\<lparr>hs_memories = [], hs_effects = []\<rparr>"]
  by (simp add: farcaster_runtime_config) (simp add: farcaster_runtime_def farcaster_message_def
      formatFarcasterData_def emit_def)

text \<open>
  Claim C7. A Farcaster response with an \<open>errors\<close> field (even an empty array,
  which is truthy) makes the handler throw the upstream error before formatting.
\<close>

theorem farcaster_upstream_error:
  assumes "rt_generateText rt (farcaster_context (ct_text (mem_content msg))) = Some u"
    and "validateZapperConfig (rt_getSetting rt) (rt_env rt) = Inr config"
    and "rt_farcaster_api rt (gql_request (getZapperHeaders config) (FarcasterQuery u)) = Some resp"
    and "gql_errors resp \<noteq> None"
  shows "farcaster_handler pa rt msg cb s =
           (Inl (Error ''Failed to fetch Farcaster addresses''),
            emit (Fetch (gql_request (getZapperHeaders config) (FarcasterQuery u)))
              (emit (GenerateText (farcaster_context (ct_text (mem_content msg)))) s))"
  using assms by (simp add: farcaster_handler_def getFarcasterAddresses_def step_simps Let_def)

theorem farcaster_upstream_error_witness:
  "farcaster_handler (\<lambda>_ _. sreturn ())
      (farcaster_runtime ''dwr.eth'' \<lparr>gql_data = Some (Some (sample_profile (Some [''0x1'']) None)),
                                      gql_errors = Some []\<rparr>)
      (farcaster_message ''@dwr.eth'') True \<lparr>hs_memories = [], hs_effects = []\<rparr>
   = (Inl (Error ''Failed to fetch Farcaster addresses''),
      \<lparr>hs_memories = [],
       hs_effects = [GenerateText (farcaster_context ''@dwr.eth''),
                     Fetch (gql_request (getZapperHeaders \<lparr>ZAPPER_API_KEY = ''test-key''\<rparr>)
                              (FarcasterQuery ''dwr.eth''))]\<rparr>)"
  using farcaster_upstream_error [of "farcaster_runtime ''dwr.eth'' \<lparr>gql_data = Some (Some (sample_profile (Some [''0x1'']) None)), gql_errors = Some []\<rparr>"
      "farcaster_message ''@dwr.eth''" "''dwr.eth''" "\<lparr>ZAPPER_API_KEY = ''test-key''\<rparr>"
      "\<lparr>gql_data = Some (Some (sample_profile (Some [''0x1'']) None)), gql_errors = Some []\<rparr>"
      "\<lambda>_ _. sreturn ()" True "\<lparr>hs_memories = [], hs_effects = []\<rparr>"]
  by (simp add: farcaster_runtime_config) (simp add: farcaster_runtime_def farcaster_message_def emit_def)

end
