(* ===== verification/Plugin.thy ===== *)
theory Plugin
  imports Portfolio_Action Farcaster_Action
begin

text \<open>
  The plugin (\<open>src/dist/index.js\<close> lines 9--34, 126--133, 244--279 and 362--367,
  from \<open>src/index.ts\<close> and the two \<open>examples.ts\<close>): the two actions' metadata
  and example dialogues, and the plugin object listing them. Their \<open>validate\<close>
  functions return \<open>true\<close> for every message.

  \<open>dispatch\<close> is the host's \<open>runtime.processActions(message, responses, state,
  callback)\<close> with the plugin's two actions registered (the host is not code of the
  repository; it is modelled from the elizaOS runtime). For each response whose
  \<open>content.action\<close> is truthy, the tag is normalised (\<open>toLowerCase()\<close>, then the
  first \<open>_\<close> removed) and the first action whose normalised name contains the tag
  or is contained in it is chosen, else the first action with such a simile
  (\<open>find_action\<close>); the handler runs on the inbound \<open>message\<close> with the same
  callback, inside a \<open>try\<close> whose \<open>catch\<close> only logs (\<open>host_catch\<close>).
  The Farcaster handler re-enters \<open>processActions\<close> with its new memory as message
  and only response, so \<open>dispatch\<close> takes a nesting budget \<open>n\<close>; running out is
  the error \<open>fuel_exhausted\<close>, which the model's \<open>catch\<close> does not swallow. The
  lemmas show that a budget of 2 is always enough and that more changes nothing.

  \<open>handler_trace\<close> is the grammar of the effects the plugin produces: rounds
  of one language-model call, optionally followed by one request to the Zapper
  endpoint, optionally followed by one memory write and, when a callback was given,
  the callback with that memory's content.
  \<open>pipeline_runtime\<close> and \<open>agent_reply\<close> are test inputs for the witnesses.
\<close>

datatype action_kind = ZapperPortfolio | FarcasterPortfolio

record action_meta =
  act_name :: string
  act_description :: string
  act_similes :: "string list"
  act_examples :: "(string \<times> content) list list"

record plugin =
  pl_name :: string
  pl_description :: string
  pl_actions :: "(action_meta \<times> action_kind) list"

definition text_content :: "string \<Rightarrow> string option \<Rightarrow> content" where
  "text_content t a = \<lparr>ct_text = t, ct_action = a, ct_source = None, ct_addresses = None\<rparr>"

definition portfolio_examples :: "(string \<times> content) list list" where
  "portfolio_examples =
     [[(''{{user1}}'', text_content ''Show me the holdings for 0x187c7b0393ebe86378128f2653d0930e33218899'' None),
       (''{{user2}}'', text_content [] (Some ''ZAPPER_PORTFOLIO''))],
      [(''{{user1}}'', text_content (''Check these wallets: 0xd8da6bf26964af9d7eed9e03e53415d37aa96045, ''
                                    @ ''0xadd746be46ff36f10c81d6e3ba282537f4c68077'') None),
       (''{{user2}}'', text_content [] (Some ''ZAPPER_PORTFOLIO''))]]"

definition farcaster_examples :: "(string \<times> content) list list" where
  "farcaster_examples =
     [[(''{{user1}}'', text_content ''Show me the holdings for Farcaster users @vitalik.eth and @jessepollak'' None),
       (''{{user2}}'', text_content [] (Some ''FARCASTER_PORTFOLIO''))],
      [(''{{user1}}'', text_content ''What's the portfolio for @dwr.eth?'' None),
       (''{{user2}}'', text_content [] (Some ''FARCASTER_PORTFOLIO''))]]"

definition portfolioAction :: action_meta where
  "portfolioAction =
     \<lparr>act_name = ''ZAPPER_PORTFOLIO'',
      act_description = ''Get the portfolio from given address or addresses'',
      act_similes = [''GET_PORTFOLIO''], act_examples = portfolio_examples\<rparr>"

definition farcasterPortfolioAction :: action_meta where
  "farcasterPortfolioAction =
     \<lparr>act_name = ''FARCASTER_PORTFOLIO'',
      act_description = ''Get the portfolio for one or more Farcaster usernames'',
      act_similes = [''GET_FARCASTER_PORTFOLIO''], act_examples = farcaster_examples\<rparr>"

definition portfolio_validate :: "runtime \<Rightarrow> memory \<Rightarrow> bool" where
  "portfolio_validate rt message = True"

definition farcaster_validate :: "runtime \<Rightarrow> memory \<Rightarrow> bool" where
  "farcaster_validate rt message = True"

definition zapperPlugin :: plugin where
  "zapperPlugin =
     \<lparr>pl_name = ''zapper'',
      pl_description = ''A plugin for integrating the Zapper API with your application.'',
      pl_actions = [(portfolioAction, ZapperPortfolio), (farcasterPortfolioAction, FarcasterPortfolio)]\<rparr>"

definition normalize_action :: "string \<Rightarrow> string" where
  "normalize_action a = js_replace_first (CHR ''_'') (js_toLowerCase a)"

definition action_matches :: "string \<Rightarrow> string \<Rightarrow> bool" where
  "action_matches normalizedAction name \<longleftrightarrow>
     js_includes (normalize_action name) normalizedAction \<or> js_includes normalizedAction (normalize_action name)"

definition find_action :: "string \<Rightarrow> action_kind option" where
  "find_action a =
     (let normalizedAction = normalize_action a
      in case find (\<lambda>(meta, k). action_matches normalizedAction (act_name meta)) (pl_actions zapperPlugin) of
           Some (meta, k) \<Rightarrow> Some k
         | None \<Rightarrow> map_option snd
                   (find (\<lambda>(meta, k). list_ex (action_matches normalizedAction) (act_similes meta))
                         (pl_actions zapperPlugin)))"

definition fuel_exhausted :: error where
  "fuel_exhausted = ExternalError ''action nesting limit''"

definition host_catch :: "'a step \<Rightarrow> unit step" where
  "host_catch m s =
     (case m s of
        (Inl e, s') \<Rightarrow> (if e = fuel_exhausted then Inl e else Inr (), s')
      | (Inr _, s') \<Rightarrow> (Inr (), s'))"

definition run_response ::
  "(memory \<Rightarrow> bool \<Rightarrow> unit step) \<Rightarrow> runtime \<Rightarrow> memory \<Rightarrow> bool \<Rightarrow> memory \<Rightarrow> unit step" where
  "run_response processActions rt message has_callback response =
     (if \<not> js_truthy (ct_action (mem_content response)) then sreturn ()
      else case find_action (the (ct_action (mem_content response))) of
             None \<Rightarrow> sreturn ()
           | Some ZapperPortfolio \<Rightarrow> host_catch (portfolio_handler rt message has_callback)
           | Some FarcasterPortfolio \<Rightarrow> host_catch (farcaster_handler processActions rt message has_callback))"

primrec dispatch :: "nat \<Rightarrow> runtime \<Rightarrow> memory \<Rightarrow> memory list \<Rightarrow> bool \<Rightarrow> unit step" where
  "dispatch 0 rt message responses has_callback = sthrow fuel_exhausted"
| "dispatch (Suc n) rt message responses has_callback =
     foldr (\<lambda>response rest.
              sbind (run_response (\<lambda>m c. dispatch n rt m [m] c) rt message has_callback response) (\<lambda>_. rest))
       responses (sreturn ())"

definition avoids :: "error \<Rightarrow> 'a step \<Rightarrow> bool" where
  "avoids e m \<longleftrightarrow> (\<forall>s. fst (m s) \<noteq> Inl e)"

inductive handler_trace :: "bool \<Rightarrow> effect list \<Rightarrow> bool" for cb :: bool where
  idle: "handler_trace cb []"
| model_only: "handler_trace cb es \<Longrightarrow> handler_trace cb (GenerateText c # es)"
| fetched: "req_url r = zapper_endpoint \<Longrightarrow> handler_trace cb es
            \<Longrightarrow> handler_trace cb (GenerateText c # Fetch r # es)"
| stored: "req_url r = zapper_endpoint \<Longrightarrow> \<not> cb \<Longrightarrow> handler_trace cb es
            \<Longrightarrow> handler_trace cb (GenerateText c # Fetch r # CreateMemory m # es)"
| stored_callback: "req_url r = zapper_endpoint \<Longrightarrow> cb \<Longrightarrow> handler_trace cb es
            \<Longrightarrow> handler_trace cb (GenerateText c # Fetch r # CreateMemory m # Callback (mem_content m) # es)"

code_pred handler_trace .

fun stored_memories :: "effect list \<Rightarrow> memory list" where
  "stored_memories [] = []"
| "stored_memories (CreateMemory m # es) = m # stored_memories es"
| "stored_memories (e # es) = stored_memories es"

definition follows_protocol :: "bool \<Rightarrow> 'a step \<Rightarrow> bool" where
  "follows_protocol cb m \<longleftrightarrow>
     (\<forall>s. \<exists>es. hs_effects (snd (m s)) = hs_effects s @ es \<and> handler_trace cb es
               \<and> hs_memories (snd (m s)) = hs_memories s @ stored_memories es)"

definition pipeline_runtime :: runtime where
  "pipeline_runtime =
     \<lparr>rt_getSetting = (\<lambda>name. if name = ''ZAPPER_API_KEY'' then Some ''test-key'' else None),
      rt_env = (\<lambda>_. None),
      rt_generateText = (\<lambda>c. if c = farcaster_context ''Portfolio of @dwr.eth'' then Some ''dwr.eth''
                              else Some ''0x1, 0x2''),
      rt_portfolio_api = (\<lambda>_. Some \<lparr>gql_data = Some (Some example_portfolio), gql_errors = None\<rparr>),
      rt_farcaster_api = (\<lambda>_. Some \<lparr>gql_data = Some (Some (sample_profile (Some [''0x1'']) (Some ''0x2''))),
                                    gql_errors = None\<rparr>)\<rparr>"

definition agent_reply :: "string \<Rightarrow> memory" where
  "agent_reply action =
     \<lparr>mem_userId = ''agent'', mem_agentId = ''agent'', mem_roomId = ''room'',
      mem_content = text_content [] (Some action)\<rparr>"

subsection \<open>Routing\<close>

lemma find_action_names [simp]:
  "find_action ''ZAPPER_PORTFOLIO'' = Some ZapperPortfolio"
  "find_action ''FARCASTER_PORTFOLIO'' = Some FarcasterPortfolio"
  by code_simp+

subsection \<open>The nesting budget\<close>

text \<open>
  \<open>avoids e m\<close>: from no state does \<open>m\<close> end with the error \<open>e\<close>. The
  handlers never raise \<open>fuel_exhausted\<close> themselves, and the Farcaster handler
  only re-enters the dispatcher with a memory tagged \<open>ZAPPER_PORTFOLIO\<close>, which
  routes to the portfolio handler, which does not re-enter it: the nesting depth is
  at most 2.
\<close>

lemma sbind_sreturn_right [simp]: "sbind m sreturn = m"
  by (auto simp: sbind_def sreturn_def fun_eq_iff split: prod.splits sum.splits)

lemma dispatch_Suc_Cons:
  "dispatch (Suc n) rt m (r # rs) cb =
     sbind (run_response (\<lambda>m c. dispatch n rt m [m] c) rt m cb r) (\<lambda>_. dispatch (Suc n) rt m rs cb)"
  by simp

lemma dispatch_Suc_Nil: "dispatch (Suc n) rt m [] cb = sreturn ()"
  by simp

lemma farcaster_memory_action [simp]:
  "ct_action (mem_content (farcaster_memory msg addrs)) = Some ''ZAPPER_PORTFOLIO''"
  by (simp add: farcaster_memory_def)

lemma dispatch_zapper:
  "ct_action (mem_content r) = Some ''ZAPPER_PORTFOLIO'' \<Longrightarrow>
   dispatch (Suc n) rt m [r] cb = host_catch (portfolio_handler rt m cb)"
  by (simp add: run_response_def)

lemma farcaster_handler_cong:
  assumes "\<And>m c. ct_action (mem_content m) = Some ''ZAPPER_PORTFOLIO'' \<Longrightarrow> pa m c = pa' m c"
  shows "farcaster_handler pa rt msg cb = farcaster_handler pa' rt msg cb"
  unfolding farcaster_handler_def Let_def
  by (simp add: assms cong: if_cong)

lemma dispatch_enough_fuel: "dispatch (Suc (Suc n)) rt m rs cb = dispatch 2 rt m rs cb"
proof -
  have eq: "farcaster_handler (\<lambda>m c. dispatch (Suc n) rt m [m] c) = farcaster_handler (\<lambda>m c. dispatch 1 rt m [m] c)"
    by (intro ext farcaster_handler_cong) (simp add: dispatch_zapper del: dispatch.simps)
  have "run_response (\<lambda>m c. dispatch (Suc n) rt m [m] c) = run_response (\<lambda>m c. dispatch 1 rt m [m] c)"
    unfolding run_response_def eq ..
  then show ?thesis
    by (simp add: numeral_2_eq_2 del: dispatch.simps) (simp only: dispatch.simps)
qed


lemma avoids_sreturn [simp]: "avoids e (sreturn x)"
  by (simp add: avoids_def sreturn_def)

lemma avoids_sthrow [simp]: "avoids e (sthrow e') \<longleftrightarrow> e' \<noteq> e"
  by (simp add: avoids_def sthrow_def)

lemma avoids_slift [simp]: "avoids e (slift r) \<longleftrightarrow> r \<noteq> Inl e"
  by (simp add: avoids_def slift_def)

lemma avoids_sbind: "avoids e m \<Longrightarrow> (\<And>x. avoids e (f x)) \<Longrightarrow> avoids e (sbind m f)"
  by (auto simp: avoids_def sbind_def split: prod.splits sum.splits) (metis fst_conv)

lemma avoids_host_catch: "avoids fuel_exhausted m \<Longrightarrow> avoids fuel_exhausted (host_catch m)"
  by (auto simp: avoids_def host_catch_def split: prod.splits sum.splits) (metis fst_conv)

lemma avoids_fuel_services [simp]:
  "avoids fuel_exhausted (generateText rt c)" "avoids fuel_exhausted (fetch_portfolio rt r)"
  "avoids fuel_exhausted (fetch_farcaster rt r)" "avoids fuel_exhausted (createMemory mem)"
  "avoids fuel_exhausted (run_callback b ct)"
  by (auto simp: avoids_def fuel_exhausted_def generateText_def fetch_portfolio_def fetch_farcaster_def
      createMemory_def run_callback_def split: option.splits)

lemma fuel_exhausted_distinct [simp]:
  "Error x \<noteq> fuel_exhausted" "TypeError x \<noteq> fuel_exhausted"
  by (simp_all add: fuel_exhausted_def)

lemma validateZapperConfig_not_fuel [simp]: "validateZapperConfig g e \<noteq> Inl fuel_exhausted"
  by (simp add: validateZapperConfig_def Let_def split: sum.splits)

lemma formatPortfolioData_not_fuel [simp]: "formatPortfolioData d \<noteq> Inl fuel_exhausted"
  by (simp add: formatPortfolioData_def split: option.splits)

lemma avoids_fuel_portfolio_handler: "avoids fuel_exhausted (portfolio_handler rt m cb)"
  by (auto simp: portfolio_handler_def getZapperAssets_def Let_def intro!: avoids_sbind)

lemma avoids_fuel_farcaster_handler:
  "(\<And>m c. ct_action (mem_content m) = Some ''ZAPPER_PORTFOLIO'' \<Longrightarrow> avoids fuel_exhausted (pa m c))
   \<Longrightarrow> avoids fuel_exhausted (farcaster_handler pa rt msg cb)"
  by (auto simp: farcaster_handler_def getFarcasterAddresses_def Let_def intro!: avoids_sbind)

lemma avoids_fuel_dispatch2: "avoids fuel_exhausted (dispatch 2 rt m rs cb)"
proof (induction rs)
  case Nil
  then show ?case by (simp add: numeral_2_eq_2)
next
  case (Cons r rs)
  have "avoids fuel_exhausted (run_response (\<lambda>m c. dispatch 1 rt m [m] c) rt m cb r)"
    by (auto simp: run_response_def dispatch_zapper avoids_fuel_portfolio_handler
        simp del: dispatch.simps intro!: avoids_host_catch avoids_fuel_farcaster_handler split: option.splits action_kind.splits)
  with Cons.IH show ?case
    by (simp only: numeral_2_eq_2 dispatch_Suc_Cons One_nat_def) (blast intro: avoids_sbind)
qed

text \<open>
  Claim C13. Dispatching terminates within the nesting budget 2: any larger budget
  computes the same result and state, and the budget is never exhausted.
\<close>

theorem dispatch_fuel:
  assumes "2 \<le> n"
  shows "dispatch n rt m rs cb = dispatch 2 rt m rs cb \<and> avoids fuel_exhausted (dispatch n rt m rs cb)"
proof -
  obtain k where "n = Suc (Suc k)" using assms by (metis add_2_eq_Suc le_Suc_ex)
  then have "dispatch n rt m rs cb = dispatch 2 rt m rs cb" by (simp only: dispatch_enough_fuel)
  then show ?thesis by (simp add: avoids_fuel_dispatch2)
qed

text \<open>
  The witness dispatches the agent's \<open>FARCASTER_PORTFOLIO\<close> reply to a user
  message: the Farcaster handler runs and re-enters the dispatcher, so a budget of
  1 is exhausted, while 3 computes what 2 computes.
\<close>

theorem dispatch_fuel_witness:
  "dispatch 3 pipeline_runtime (example_message ''Portfolio of @dwr.eth'') [agent_reply ''FARCASTER_PORTFOLIO''] False
     = dispatch 2 pipeline_runtime (example_message ''Portfolio of @dwr.eth'') [agent_reply ''FARCASTER_PORTFOLIO''] False
   \<and> avoids fuel_exhausted
       (dispatch 3 pipeline_runtime (example_message ''Portfolio of @dwr.eth'') [agent_reply ''FARCASTER_PORTFOLIO''] False)
   \<and> fst (dispatch 1 pipeline_runtime (example_message ''Portfolio of @dwr.eth'') [agent_reply ''FARCASTER_PORTFOLIO'']
          False empty_state) = Inl fuel_exhausted"
proof -
  have "fst (dispatch 1 pipeline_runtime (example_message ''Portfolio of @dwr.eth'') [agent_reply ''FARCASTER_PORTFOLIO'']
          False empty_state) = Inl fuel_exhausted"
    by (simp add: run_response_def agent_reply_def text_content_def example_message_def farcaster_handler_def
        getFarcasterAddresses_def host_catch_def pipeline_runtime_def validateZapperConfig_def js_or_def
        zapperEnvironmentSchema_parse_def formatFarcasterData_def sample_profile_def sbind_apply step_defs Let_def)
  moreover have "dispatch 3 pipeline_runtime (example_message ''Portfolio of @dwr.eth'') [agent_reply ''FARCASTER_PORTFOLIO''] False
     = dispatch 2 pipeline_runtime (example_message ''Portfolio of @dwr.eth'') [agent_reply ''FARCASTER_PORTFOLIO''] False
   \<and> avoids fuel_exhausted
       (dispatch 3 pipeline_runtime (example_message ''Portfolio of @dwr.eth'') [agent_reply ''FARCASTER_PORTFOLIO''] False)"
    by (rule dispatch_fuel) simp
  ultimately show ?thesis by blast
qed

subsection \<open>The effect protocol\<close>

lemma handler_trace_append:
  "handler_trace cb xs \<Longrightarrow> handler_trace cb ys \<Longrightarrow> handler_trace cb (xs @ ys)"
  by (induction rule: handler_trace.induct) (auto intro: handler_trace.intros)

lemma stored_memories_append [simp]:
  "stored_memories (xs @ ys) = stored_memories xs @ stored_memories ys"
  by (induction xs rule: stored_memories.induct) auto

lemma follows_protocol_sreturn [simp]: "follows_protocol cb (sreturn x)"
  by (auto simp: follows_protocol_def sreturn_def intro: handler_trace.idle)

lemma follows_protocol_sthrow [simp]: "follows_protocol cb (sthrow e)"
  by (auto simp: follows_protocol_def sthrow_def intro: handler_trace.idle)

lemma follows_protocol_sbind:
  assumes "follows_protocol cb m" and "\<And>x. follows_protocol cb (f x)"
  shows "follows_protocol cb (sbind m f)"
  unfolding follows_protocol_def
proof
  fix s
  obtain es where es: "hs_effects (snd (m s)) = hs_effects s @ es" "handler_trace cb es"
    "hs_memories (snd (m s)) = hs_memories s @ stored_memories es"
    using assms(1) by (auto simp: follows_protocol_def)
  show "\<exists>es. hs_effects (snd (sbind m f s)) = hs_effects s @ es \<and> handler_trace cb es
            \<and> hs_memories (snd (sbind m f s)) = hs_memories s @ stored_memories es"
  proof (cases "m s")
    case (Pair r s')
    show ?thesis
    proof (cases r)
      case (Inl e)
      with Pair es show ?thesis by (auto simp: sbind_def)
    next
      case (Inr x)
      obtain es' where es': "hs_effects (snd (f x s')) = hs_effects s' @ es'" "handler_trace cb es'"
        "hs_memories (snd (f x s')) = hs_memories s' @ stored_memories es'"
        using assms(2) [of x] by (auto simp: follows_protocol_def)
      with Pair Inr es show ?thesis
        by (intro exI [of _ "es @ es'"]) (auto simp: sbind_def intro: handler_trace_append)
    qed
  qed
qed

lemma follows_protocol_host_catch: "follows_protocol cb m \<Longrightarrow> follows_protocol cb (host_catch m)"
  unfolding follows_protocol_def host_catch_def
  by (auto split: prod.splits sum.splits) (metis snd_conv)+

lemma follows_protocol_portfolio_handler: "follows_protocol cb (portfolio_handler rt msg cb)"
  by (auto simp: follows_protocol_def portfolio_handler_def getZapperAssets_def sbind_apply step_defs slift_def Let_def
      emit_def gql_request_def intro: handler_trace.intros split: option.splits sum.splits prod.splits)


lemma follows_protocol_farcaster_handler:
  assumes pa: "\<And>m. follows_protocol cb (pa m cb)"
  shows "follows_protocol cb (farcaster_handler pa rt msg cb)"
  unfolding follows_protocol_def
proof
  fix s
  let ?ctx = "farcaster_context (ct_text (mem_content msg))"
  show "\<exists>es. hs_effects (snd (farcaster_handler pa rt msg cb s)) = hs_effects s @ es \<and> handler_trace cb es
            \<and> hs_memories (snd (farcaster_handler pa rt msg cb s)) = hs_memories s @ stored_memories es"
  proof (cases "\<exists>u config resp. rt_generateText rt ?ctx = Some u
      \<and> validateZapperConfig (rt_getSetting rt) (rt_env rt) = Inr config
      \<and> rt_farcaster_api rt (gql_request (getZapperHeaders config) (FarcasterQuery u)) = Some resp
      \<and> gql_errors resp = None \<and> formatFarcasterData resp \<noteq> []")
    case True
    then obtain u config resp where svc: "rt_generateText rt ?ctx = Some u"
      "validateZapperConfig (rt_getSetting rt) (rt_env rt) = Inr config"
      "rt_farcaster_api rt (gql_request (getZapperHeaders config) (FarcasterQuery u)) = Some resp"
      "gql_errors resp = None" "formatFarcasterData resp \<noteq> []"
      by blast
    define fm where "fm = farcaster_memory msg (formatFarcasterData resp)"
    define pre where "pre = [GenerateText ?ctx, Fetch (gql_request (getZapperHeaders config) (FarcasterQuery u)),
                             CreateMemory fm] @ (if cb then [Callback (mem_content fm)] else [])"
    define s2 where "s2 = snd (run_callback cb (mem_content fm) (snd (createMemory fm
        (emit (Fetch (gql_request (getZapperHeaders config) (FarcasterQuery u))) (emit (GenerateText ?ctx) s)))))"
    have s2: "hs_effects s2 = hs_effects s @ pre" "hs_memories s2 = hs_memories s @ [fm]"
      by (simp_all add: s2_def pre_def step_defs)
    have run: "snd (farcaster_handler pa rt msg cb s) = snd (pa fm cb s2)"
      using svc by (cases cb) (simp_all add: farcaster_handler_def getFarcasterAddresses_def sbind_apply step_defs
          Let_def fm_def s2_def split: prod.split sum.split)
    obtain es where es: "hs_effects (snd (pa fm cb s2)) = hs_effects s2 @ es" "handler_trace cb es"
      "hs_memories (snd (pa fm cb s2)) = hs_memories s2 @ stored_memories es"
      using pa [of fm] by (auto simp: follows_protocol_def)
    have "handler_trace cb (pre @ es)"
      using es(2) by (auto simp: pre_def gql_request_def intro: handler_trace.intros)
    moreover have "stored_memories pre = [fm]"
      by (simp add: pre_def)
    ultimately show ?thesis
      using es by (intro exI [of _ "pre @ es"]) (simp add: run s2)
  next
    case False
    then show ?thesis
      by (auto simp: farcaster_handler_def getFarcasterAddresses_def sbind_apply step_defs slift_def Let_def emit_def
          gql_request_def intro: handler_trace.intros split: option.splits sum.splits prod.splits)
  qed
qed


lemma follows_protocol_dispatch: "follows_protocol cb (dispatch n rt m rs cb)"
proof (induction n arbitrary: m rs)
  case 0
  then show ?case by simp
next
  case (Suc n)
  have "follows_protocol cb (run_response (\<lambda>m c. dispatch n rt m [m] c) rt m cb r)" for r
    using Suc.IH
    by (auto simp: run_response_def follows_protocol_portfolio_handler simp del: dispatch.simps
        intro!: follows_protocol_host_catch follows_protocol_farcaster_handler
        split: option.splits action_kind.splits)
  then show ?case
    by (induction rs) (simp_all only: dispatch_Suc_Nil dispatch_Suc_Cons follows_protocol_sreturn
        follows_protocol_sbind)
qed

inductive_cases handler_trace_CreateMemory: "handler_trace cb (CreateMemory m # es)"

lemma handler_trace_write_first: "\<not> handler_trace cb (CreateMemory m # es)"
  by (auto elim: handler_trace_CreateMemory)

text \<open>
  Claim C14. Whatever actions the responses name, and whether the handlers succeed
  or throw, dispatching extends the effect trace by rounds of the plugin's
  protocol: each round starts with one language-model call, a request goes only to
  the Zapper endpoint and only right after the model call, a memory is written only
  right after a request, and when a callback was given it is invoked right after
  each write with that memory's content. The memory store gains exactly the
  memories written, in order.
\<close>

theorem dispatch_protocol:
  "\<exists>es. hs_effects (snd (dispatch n rt m rs cb s)) = hs_effects s @ es \<and> handler_trace cb es
        \<and> hs_memories (snd (dispatch n rt m rs cb s)) = hs_memories s @ stored_memories es"
  using follows_protocol_dispatch [of cb n rt m rs] by (simp add: follows_protocol_def)

theorem dispatch_protocol_witness:
  "handler_trace True
     (hs_effects (snd (dispatch 2 pipeline_runtime (example_message ''Portfolio of @dwr.eth'')
        [agent_reply ''FARCASTER_PORTFOLIO''] True empty_state)))
   \<and> hs_memories (snd (dispatch 2 pipeline_runtime (example_message ''Portfolio of @dwr.eth'')
        [agent_reply ''FARCASTER_PORTFOLIO''] True empty_state))
     = stored_memories (hs_effects (snd (dispatch 2 pipeline_runtime (example_message ''Portfolio of @dwr.eth'')
        [agent_reply ''FARCASTER_PORTFOLIO''] True empty_state)))"
  using dispatch_protocol [of 2 pipeline_runtime "example_message ''Portfolio of @dwr.eth''"
      "[agent_reply ''FARCASTER_PORTFOLIO'']" True empty_state]
  by (auto simp: empty_state_def)


subsection \<open>From a Farcaster username to a portfolio report\<close>

lemma parse_addresses_farcaster:
  assumes "\<forall>a \<in> set (formatFarcasterData resp). CHR '','' \<notin> set a \<and> js_trim a = a"
  shows "parse_addresses (js_join '', '' (formatFarcasterData resp)) = formatFarcasterData resp"
  using assms formatFarcasterData_nonempty [of _ resp] by (intro parse_addresses_js_join) auto

text \<open>
  Claim C5. The Farcaster action followed by the dispatch of its memory: when the
  services answer and the language model returns the addresses of the
  intermediate memory joined with \<open>", "\<close>, the portfolio query is sent for
  exactly the Farcaster addresses, and the store receives the intermediate memory
  and then the report, with the effects in program order.
\<close>

theorem farcaster_to_portfolio:
  assumes "ct_action (mem_content reply) = Some ''FARCASTER_PORTFOLIO''"
    and "rt_generateText rt (farcaster_context (ct_text (mem_content msg))) = Some u"
    and "validateZapperConfig (rt_getSetting rt) (rt_env rt) = Inr config"
    and "rt_farcaster_api rt (gql_request (getZapperHeaders config) (FarcasterQuery u)) = Some fresp"
    and "gql_errors fresp = None" and "formatFarcasterData fresp = addrs" and "addrs \<noteq> []"
    and "\<forall>a \<in> set addrs. CHR '','' \<notin> set a \<and> js_trim a = a"
    and "rt_generateText rt (portfolio_context (ct_text (mem_content (farcaster_memory msg addrs))))
         = Some (js_join '', '' addrs)"
    and "rt_portfolio_api rt (gql_request (getZapperHeaders config) (PortfolioQuery addrs)) = Some presp"
    and "gql_errors presp = None" and "gql_data presp = Some (Some p)"
  shows "dispatch 2 rt msg [reply] cb s =
     (Inr (),
      s\<lparr>hs_memories := hs_memories s @
          [farcaster_memory msg addrs, portfolio_memory (farcaster_memory msg addrs) (render_portfolio p)],
        hs_effects := hs_effects s @
          [GenerateText (farcaster_context (ct_text (mem_content msg))),
           Fetch (gql_request (getZapperHeaders config) (FarcasterQuery u)),
           CreateMemory (farcaster_memory msg addrs)]
          @ (if cb then [Callback (mem_content (farcaster_memory msg addrs))] else [])
          @ [GenerateText (portfolio_context (ct_text (mem_content (farcaster_memory msg addrs)))),
             Fetch (gql_request (getZapperHeaders config) (PortfolioQuery addrs)),
             CreateMemory (portfolio_memory (farcaster_memory msg addrs) (render_portfolio p))]
          @ (if cb then [Callback (mem_content (portfolio_memory (farcaster_memory msg addrs)
                                                   (render_portfolio p)))] else [])\<rparr>)"
proof -
  have "parse_addresses (js_join '', '' addrs) = addrs"
    using assms(6,8) parse_addresses_farcaster [of fresp] by simp
  then show ?thesis
    using assms
    by (simp add: numeral_2_eq_2 run_response_def host_catch_def farcaster_handler_def
        getFarcasterAddresses_def portfolio_handler_def getZapperAssets_def formatPortfolioData_def
        sbind_apply step_defs Let_def emit_def)
qed


theorem farcaster_to_portfolio_witness:
  "dispatch 2 pipeline_runtime (example_message ''Portfolio of @dwr.eth'') [agent_reply ''FARCASTER_PORTFOLIO'']
     False empty_state =
     (Inr (),
      \<lparr>hs_memories =
          [farcaster_memory (example_message ''Portfolio of @dwr.eth'') [''0x1'', ''0x2''],
           portfolio_memory (farcaster_memory (example_message ''Portfolio of @dwr.eth'') [''0x1'', ''0x2''])
             (render_portfolio example_portfolio)],
       hs_effects =
          [GenerateText (farcaster_context ''Portfolio of @dwr.eth''),
           Fetch (gql_request (getZapperHeaders \<lparr>ZAPPER_API_KEY = ''test-key''\<rparr>) (FarcasterQuery ''dwr.eth'')),
           CreateMemory (farcaster_memory (example_message ''Portfolio of @dwr.eth'') [''0x1'', ''0x2'']),
           GenerateText (portfolio_context ''Fetching portfolio for addresses: 0x1, 0x2''),
           Fetch (gql_request (getZapperHeaders \<lparr>ZAPPER_API_KEY = ''test-key''\<rparr>) (PortfolioQuery [''0x1'', ''0x2''])),
           CreateMemory (portfolio_memory (farcaster_memory (example_message ''Portfolio of @dwr.eth'')
                                             [''0x1'', ''0x2'']) (render_portfolio example_portfolio))]\<rparr>)"
proof -
  have cfg: "validateZapperConfig (rt_getSetting pipeline_runtime) (rt_env pipeline_runtime)
             = Inr \<lparr>ZAPPER_API_KEY = ''test-key''\<rparr>"
    by (simp add: pipeline_runtime_def validateZapperConfig_def js_or_def zapperEnvironmentSchema_parse_def)
  have fmt: "formatFarcasterData \<lparr>gql_data = Some (Some (sample_profile (Some [''0x1'']) (Some ''0x2''))),
                                  gql_errors = None\<rparr> = [''0x1'', ''0x2'']"
    by (simp add: formatFarcasterData_def sample_profile_def)
  have ctx: "rt_generateText pipeline_runtime (portfolio_context ''Fetching portfolio for addresses: 0x1, 0x2'')
             = Some ''0x1, 0x2''"
    by (simp add: pipeline_runtime_def portfolio_context_def farcaster_context_def)
  show ?thesis
    using farcaster_to_portfolio [of "agent_reply ''FARCASTER_PORTFOLIO''" pipeline_runtime
        "example_message ''Portfolio of @dwr.eth''"
        "''dwr.eth''" "\<lparr>ZAPPER_API_KEY = ''test-key''\<rparr>"
        "\<lparr>gql_data = Some (Some (sample_profile (Some [''0x1'']) (Some ''0x2''))), gql_errors = None\<rparr>"
        "[''0x1'', ''0x2'']" "\<lparr>gql_data = Some (Some example_portfolio), gql_errors = None\<rparr>"
        example_portfolio False empty_state]
    by (simp add: cfg fmt ctx example_message_def agent_reply_def text_content_def farcaster_memory_def)
       (simp add: pipeline_runtime_def example_message_def farcaster_memory_def empty_state_def
        js_trim_def js_whitespace_def)
qed

text \<open>
  Claim C21. The host's \<open>catch\<close> around each handler hides a failure of the
  portfolio step from the Farcaster action: when the portfolio response carries
  \<open>errors\<close>, the dispatch still ends normally, the store holds only the
  intermediate memory, and no report or second callback follows the request.
\<close>

theorem farcaster_portfolio_error_swallowed:
  assumes "ct_action (mem_content reply) = Some ''FARCASTER_PORTFOLIO''"
    and "rt_generateText rt (farcaster_context (ct_text (mem_content msg))) = Some u"
    and "validateZapperConfig (rt_getSetting rt) (rt_env rt) = Inr config"
    and "rt_farcaster_api rt (gql_request (getZapperHeaders config) (FarcasterQuery u)) = Some fresp"
    and "gql_errors fresp = None" and "formatFarcasterData fresp = addrs" and "addrs \<noteq> []"
    and "rt_generateText rt (portfolio_context (ct_text (mem_content (farcaster_memory msg addrs)))) = Some t"
    and "parse_addresses t \<noteq> []"
    and "rt_portfolio_api rt (gql_request (getZapperHeaders config) (PortfolioQuery (parse_addresses t)))
         = Some presp"
    and "gql_errors presp \<noteq> None"
  shows "dispatch 2 rt msg [reply] cb s =
     (Inr (),
      s\<lparr>hs_memories := hs_memories s @ [farcaster_memory msg addrs],
        hs_effects := hs_effects s @
          [GenerateText (farcaster_context (ct_text (mem_content msg))),
           Fetch (gql_request (getZapperHeaders config) (FarcasterQuery u)),
           CreateMemory (farcaster_memory msg addrs)]
          @ (if cb then [Callback (mem_content (farcaster_memory msg addrs))] else [])
          @ [GenerateText (portfolio_context (ct_text (mem_content (farcaster_memory msg addrs)))),
             Fetch (gql_request (getZapperHeaders config) (PortfolioQuery (parse_addresses t)))]\<rparr>)"
  using assms
  by (simp add: numeral_2_eq_2 run_response_def host_catch_def farcaster_handler_def
      getFarcasterAddresses_def portfolio_handler_def getZapperAssets_def sbind_apply step_defs Let_def emit_def)

theorem farcaster_portfolio_error_swallowed_witness:
  "dispatch 2 (pipeline_runtime\<lparr>rt_portfolio_api := (\<lambda>_. Some \<lparr>gql_data = None, gql_errors = Some [''x'']\<rparr>)\<rparr>)
      (example_message ''Portfolio of @dwr.eth'') [agent_reply ''FARCASTER_PORTFOLIO''] False empty_state =
     (Inr (),
      \<lparr>hs_memories = [farcaster_memory (example_message ''Portfolio of @dwr.eth'') [''0x1'', ''0x2'']],
       hs_effects =
          [GenerateText (farcaster_context ''Portfolio of @dwr.eth''),
           Fetch (gql_request (getZapperHeaders \<lparr>ZAPPER_API_KEY = ''test-key''\<rparr>) (FarcasterQuery ''dwr.eth'')),
           CreateMemory (farcaster_memory (example_message ''Portfolio of @dwr.eth'') [''0x1'', ''0x2'']),
           GenerateText (portfolio_context ''Fetching portfolio for addresses: 0x1, 0x2''),
           Fetch (gql_request (getZapperHeaders \<lparr>ZAPPER_API_KEY = ''test-key''\<rparr>) (PortfolioQuery [''0x1'', ''0x2'']))]\<rparr>)"
proof -
  have cfg: "validateZapperConfig (rt_getSetting pipeline_runtime) (rt_env pipeline_runtime)
             = Inr \<lparr>ZAPPER_API_KEY = ''test-key''\<rparr>"
    by (simp add: pipeline_runtime_def validateZapperConfig_def js_or_def zapperEnvironmentSchema_parse_def)
  have fmt: "formatFarcasterData \<lparr>gql_data = Some (Some (sample_profile (Some [''0x1'']) (Some ''0x2''))),
                                  gql_errors = None\<rparr> = [''0x1'', ''0x2'']"
    by (simp add: formatFarcasterData_def sample_profile_def)
  have ctx: "rt_generateText pipeline_runtime (portfolio_context ''Fetching portfolio for addresses: 0x1, 0x2'')
             = Some ''0x1, 0x2''"
    by (simp add: pipeline_runtime_def portfolio_context_def farcaster_context_def)
  have parse: "parse_addresses ''0x1, 0x2'' = [''0x1'', ''0x2'']"
    by (simp add: parse_addresses_def js_trim_def js_whitespace_def)
  show ?thesis
    using farcaster_portfolio_error_swallowed [of "agent_reply ''FARCASTER_PORTFOLIO''"
        "pipeline_runtime\<lparr>rt_portfolio_api := (\<lambda>_. Some \<lparr>gql_data = None, gql_errors = Some [''x'']\<rparr>)\<rparr>"
        "example_message ''Portfolio of @dwr.eth''" "''dwr.eth''" "\<lparr>ZAPPER_API_KEY = ''test-key''\<rparr>"
        "\<lparr>gql_data = Some (Some (sample_profile (Some [''0x1'']) (Some ''0x2''))), gql_errors = None\<rparr>"
        "[''0x1'', ''0x2'']" "''0x1, 0x2''" "\<lparr>gql_data = None, gql_errors = Some [''x'']\<rparr>" False empty_state]
    using cfg fmt ctx parse
    by (simp add: example_message_def agent_reply_def text_content_def farcaster_memory_def)
       (simp add: pipeline_runtime_def example_message_def farcaster_memory_def empty_state_def)
qed

end
