(* ===== verification/Spec2Isabelle.thy ===== *)
theory Spec2Isabelle
  imports Prelude JS_Sort JS_Strings Number_Format Portfolio_Format Farcaster_Format Base64 Config
    Host Portfolio_Action Farcaster_Action Plugin
begin

text \<open>
  Verification library of the Zapper plugin for the elizaOS agent framework. The
  repository's code is the bundle \<open>src/dist/index.js\<close>, built from
  \<open>src/utils.ts\<close>, \<open>src/environment.ts\<close>, \<open>src/actions/portfolio/*\<close>,
  \<open>src/actions/farcasterPortfolio/*\<close> and \<open>src/index.ts\<close>; line numbers below
  refer to the bundle.

  \<^bold>\<open>The program.\<close> The plugin registers two actions with the host runtime. The
  portfolio action (lines 126--234) asks the host's language model for the wallet
  addresses in a message, posts the \<open>Portfolio\<close> GraphQL query to Zapper with a
  Basic credential built from the API key, formats the answer into a report and
  writes it to the host's memory store, calling back the host. The Farcaster action
  (lines 272--360) asks the model for a username, posts the
  \<open>GetFarcasterAddresses\<close> query, collects the profile's addresses, writes an
  intermediate memory tagged \<open>ZAPPER_PORTFOLIO\<close> and re-enters the host's
  \<open>processActions\<close>, which runs the portfolio action on that memory.

  \<^bold>\<open>Theories.\<close>
  \<^item> \<open>Prelude\<close>: the model's types (numbers as \<^typ>\<open>rat\<close>, strings of 8-bit code
    units, bytes as \<open>8 word\<close>), the \<open>error\<close> datatype and \<open>'a result\<close>, the
    GraphQL envelope \<open>gql_response\<close>, and shared lemmas on lists and words.
  \<^item> \<open>JS_Sort\<close>, \<open>JS_Strings\<close>, \<open>Number_Format\<close>, \<open>Base64\<close>: the ECMAScript and
    Web built-ins the code calls (\<open>Array.prototype.sort\<close>, \<open>split\<close>, \<open>trim\<close>,
    \<open>join\<close>, truthiness and \<open>||\<close>, en-US \<open>toLocaleString\<close>, \<open>btoa\<close>), modelled
    from their standards since they are not code of the repository.
  \<^item> \<open>Portfolio_Format\<close>: \<open>formatPortfolioData\<close> (lines 44--94), one definition
    per section of the report.
  \<^item> \<open>Farcaster_Format\<close>: \<open>formatFarcasterData\<close> (lines 95--102).
  \<^item> \<open>Config\<close>: \<open>validateZapperConfig\<close> with the zod schema (lines 104--123)
    and \<open>getZapperHeaders\<close> (lines 37--43).
  \<^item> \<open>Host\<close>: the host as the handlers see it. A handler is a \<open>'a step\<close>, a
    function from \<open>host_state\<close> (the memory store and the ordered trace of
    effects: model calls, fetches, memory writes, callbacks) to a result or thrown
    error and the state reached. The services' answers are fields of the
    \<open>runtime\<close> record, so every theorem quantifies over what the model and the
    API return.
  \<^item> \<open>Portfolio_Action\<close>: \<open>portfolio_handler\<close> with \<open>getZapperAssets\<close>,
    \<open>parse_addresses\<close> and \<open>portfolio_memory\<close>, each \<open>await\<close> a \<open>sbind\<close>.
  \<^item> \<open>Farcaster_Action\<close>: \<open>farcaster_handler\<close> with \<open>getFarcasterAddresses\<close>
    and \<open>farcaster_memory\<close>; the host's \<open>processActions\<close> is its parameter.
  \<^item> \<open>Plugin\<close>: the action objects, their examples, \<open>zapperPlugin\<close>, and
    \<open>dispatch\<close>, the host's \<open>processActions\<close> with this plugin's actions
    registered (normalised substring lookup by name then simile, each handler run
    on the inbound message inside a \<open>catch\<close> that only logs), which closes the
    loop between the two handlers; \<open>handler_trace\<close>, the grammar of the effect
    traces the handlers produce.

  \<^bold>\<open>What is proved.\<close>
  \<^item> The report: the token section is the top five balances by value
    (\<open>top_tokens_spec\<close>), the network section the positive totals in descending
    order, stably (\<open>network_rows_spec\<close>), the currency strings decode to the value
    rounded to cents (\<open>format_usd_faithful\<close>); the comparator sort is exactly the
    permutation ECMAScript prescribes (\<open>js_sort_desc_iff\<close>), so any conforming
    engine gives the same report.
  \<^item> The Farcaster addresses are the non-empty connected addresses then the custody
    address (\<open>formatFarcasterData_spec\<close>).
  \<^item> Configuration and headers: which key is accepted and the error messages
    (\<open>validateZapperConfig_accepts\<close>, \<open>validateZapperConfig_errors\<close>); the
    credential decodes to the key (\<open>getZapperHeaders_spec\<close>).
  \<^item> Each handler branch by branch, with the complete final state: success, no
    address, configuration error, upstream \<open>errors\<close>, malformed response; address
    parsing inverts joining with \<open>", "\<close> (\<open>parse_addresses_spec\<close>).
  \<^item> Across components: a Farcaster request ends with the portfolio of exactly
    the Farcaster addresses when the model echoes them (\<open>farcaster_to_portfolio\<close>),
    while a failure of that portfolio step is hidden by the host's \<open>catch\<close>
    (\<open>farcaster_portfolio_error_swallowed\<close>); dispatch terminates within nesting
    depth 2 (\<open>dispatch_fuel\<close>); every trace the plugin produces is a sequence of
    protocol rounds (model call, request, memory write, callback with that memory)
    and the store gains exactly the memories written (\<open>dispatch_protocol\<close>);
    the portfolio handler ignores the attached addresses
    (\<open>portfolio_handler_ignores_addresses\<close>).

  \<^bold>\<open>Bounds and fuel.\<close> The only unbounded behaviour is the re-entry of
  \<open>processActions\<close>. \<open>dispatch\<close> takes a nesting budget; 2 is enough because the
  Farcaster handler only dispatches a memory tagged \<open>ZAPPER_PORTFOLIO\<close> and the
  portfolio handler dispatches nothing, and \<open>dispatch_fuel\<close> proves that every
  budget of at least 2 gives the same result and never runs out.

  \<^bold>\<open>Not modelled.\<close> Logging (\<open>elizaLogger\<close>), which affects no result. The
  language model, the network and the storage behind the memory manager, whose
  answers are parameters. The text of the GraphQL queries (a query is its kind and
  variables). The in-place mutation of \<open>tokenBalances\<close> by \<open>sort\<close>. NaN,
  infinities and negative zero; code units above 255 (\<open>btoa\<close>'s exception and
  \<open>trim\<close> and \<open>toLowerCase\<close> of Unicode text). Actions of other plugins
  registered with the same runtime, which the host's lookup would also consider.
  The \<open>state\<close> and \<open>options\<close> arguments of the handlers, which the code passes
  on without reading.
\<close>

end
